theory Spec2Isabelle
  imports Complex_Main "HOL-Library.AList"
begin

section \<open>Values, errors and tables\<close>

text \<open>
  The validation pipeline of \<^verbatim>\<open>merge_results_for_comparison.py\<close> works on pandas data
  frames whose score columns hold floating-point numbers or NaN. A score cell is modelled as
  \<open>real option\<close>: \<open>None\<close> is NaN (a missing value), \<open>Some x\<close> is the number \<open>x\<close>. Every
  comparison of the source with a NaN operand is false, every arithmetic operation with a NaN
  operand is NaN; both are written out below. A number of the model is the exact value of
  the float it stands for. Where the code compares a float with a literal, the literal is
  the double that Python reads it as. The routines of SciPy, scikit-learn and pandas that
  compute a statistic are modelled by the mathematical function they are documented to
  compute, and NumPy's \<^verbatim>\<open>mean\<close>, on whose rounding the conclusion of the report depends, is a
  parameter of the model.
\<close>

type_synonym cell = "real option"

datatype py_error =
    FileNotFoundError
  | JSONDecodeError
  | OSError
  | KeyError string
  | ValueError
  | IndexError
  | AttributeError
  | TypeError

text \<open>Comparisons of a possibly-NaN float with a constant, as Python evaluates them.\<close>

definition cell_ge :: "cell \<Rightarrow> real \<Rightarrow> bool" where
  "cell_ge c t = (case c of None \<Rightarrow> False | Some x \<Rightarrow> x \<ge> t)"

definition cell_lt :: "cell \<Rightarrow> real \<Rightarrow> bool" where
  "cell_lt c t = (case c of None \<Rightarrow> False | Some x \<Rightarrow> x < t)"

text \<open>
  The doubles that the literals \<^verbatim>\<open>0.85\<close>, \<^verbatim>\<open>0.70\<close>, \<^verbatim>\<open>0.90\<close> and \<^verbatim>\<open>0.80\<close> denote (the
  nearest to the decimal fraction, ties to even); the other literals compared with, \<^verbatim>\<open>0.75\<close>,
  \<^verbatim>\<open>0.50\<close>, \<^verbatim>\<open>1.5\<close>, \<^verbatim>\<open>2.5\<close> and \<^verbatim>\<open>2\<close>, are doubles themselves.
\<close>

definition double_0_85 :: real where
  "double_0_85 = 7656119366529843 / 2 ^ 53"

definition double_0_70 :: real where
  "double_0_70 = 3152519739159347 / 2 ^ 52"

definition double_0_90 :: real where
  "double_0_90 = 8106479329266893 / 2 ^ 53"

definition double_0_80 :: real where
  "double_0_80 = 3602879701896397 / 2 ^ 52"

text \<open>Element-wise subtraction and absolute value of pandas columns.\<close>

definition cell_sub :: "cell \<Rightarrow> cell \<Rightarrow> cell" where
  "cell_sub a b = (case a of None \<Rightarrow> None
                   | Some x \<Rightarrow> (case b of None \<Rightarrow> None | Some y \<Rightarrow> Some (x - y)))"

definition cell_abs :: "cell \<Rightarrow> cell" where
  "cell_abs a = map_option abs a"

subsection \<open>Rows of the data frames\<close>

text \<open>
  The automated table built by \<^verbatim>\<open>load_claude_json_files\<close>, the manual table returned by
  \<^verbatim>\<open>load_manual_coding\<close> (its optional pass-through columns Age, Gender, Condition and
  Categories\_Used are read by no function below and are left out), and the merged table.
  pandas puts the columns of the left (manual) frame first and those of the right frame
  after them, the join key once.
\<close>

record claude_row =
  ParticipantID :: string
  Fluency_Claude :: cell
  Flexibility_Claude :: cell
  Elaboration_Claude :: cell
  ElabDensity_Claude :: cell
  Categories_Claude :: "string option"

text \<open>A row of the manual-coding spreadsheet as \<^verbatim>\<open>pd.read_excel\<close> returns it.\<close>

record excel_row =
  ParticipantID :: string
  Fluency :: cell
  Flexibility :: cell
  Elaboration :: cell
  ElabDensity :: cell

record manual_row =
  ParticipantID :: string
  Fluency_Manual :: cell
  Flexibility_Manual :: cell
  Elaboration_Manual :: cell
  Elaboration_Density_Manual :: cell

record merged_row = manual_row +
  Fluency_Claude :: cell
  Flexibility_Claude :: cell
  Elaboration_Claude :: cell
  ElabDensity_Claude :: cell
  Categories_Claude :: "string option"
  extra_columns :: "(string \<times> cell) list"

text \<open>
  \<open>extra_columns\<close> holds the columns that \<^verbatim>\<open>analyze_discrepancies\<close> adds to the merged
  frame, by name; the merge creates none.
\<close>

text \<open>
  Selecting a score column of the merged frame by its name, \<^verbatim>\<open>merged_df[name]\<close>; a name
  that is none of the eight score columns of the merge raises KeyError (\<open>None\<close> here,
  turned into the error by the callers).
\<close>

definition merged_column :: "string \<Rightarrow> (merged_row \<Rightarrow> cell) option" where
  "merged_column name =
     (if name = ''Fluency_Manual'' then Some Fluency_Manual
      else if name = ''Flexibility_Manual'' then Some Flexibility_Manual
      else if name = ''Elaboration_Manual'' then Some Elaboration_Manual
      else if name = ''Elaboration_Density_Manual'' then Some Elaboration_Density_Manual
      else if name = ''Fluency_Claude'' then Some Fluency_Claude
      else if name = ''Flexibility_Claude'' then Some Flexibility_Claude
      else if name = ''Elaboration_Claude'' then Some Elaboration_Claude
      else if name = ''ElabDensity_Claude'' then Some ElabDensity_Claude
      else None)"

subsection \<open>Statistics, tiers and printed output\<close>

text \<open>
  The two-sided p-value of \<^verbatim>\<open>scipy.stats.pearsonr\<close> is the survival function of a beta
  distribution at \<open>|r|\<close>; its numeric evaluation is outside this development, so a p-value
  is kept symbolically, by the sample size and the coefficient it is computed from.
\<close>

datatype pvalue = P_nan | P_exact real | P_beta nat real

text \<open>
  One entry of the \<^verbatim>\<open>results\<close> dictionary. The source's key \<^verbatim>\<open>'n'\<close> is the field
  \<open>n_valid\<close>; \<open>icc\<close> is \<open>None\<close> while the key is absent.
\<close>

record agreement_result =
  correlation :: cell
  p_value :: pvalue
  mae :: real
  mean_difference :: cell
  std_difference :: cell
  n_valid :: nat
  icc :: "cell option"

type_synonym results = "(string \<times> agreement_result) list"

datatype tier = Excellent | Good | Acceptable | Moderate | Poor

datatype conclusion = Excellent_agreement | Good_to_moderate_agreement | Poor_agreement

text \<open>A printed row of the discrepancy table: ParticipantID, manual, automated, difference.\<close>

type_synonym discrepancy_row = "string \<times> cell \<times> cell \<times> cell"

text \<open>
  What the functions print, one constructor per \<^verbatim>\<open>print\<close> call of the source that
  carries information (banner lines are left out).
\<close>

datatype message =
    Found_files nat
  | Loaded string
  | Error_loading string py_error
  | Successfully_loaded nat
  | Loaded_manual nat
  | Merged_dataset nat
  | Warning_manual_only nat "string set"
  | Warning_claude_only nat "string set"
  | No_valid_data string
  | Statistics string agreement_result
  | Agreement string tier
  | Icc_value string cell
  | Reliability string tier
  | Icc_failed string py_error
  | Discrepancy_analysis real
  | Discrepancy_cases string nat "discrepancy_row list"
  | No_large_discrepancies string
  | Report_saved
  | Error_during_analysis py_error

section \<open>Step 1: loading the automated records\<close>

text \<open>
  A parsed record file, typed by the structure the two scripts expect. A key of a JSON
  object is absent, or \<^verbatim>\<open>null\<close>, or has a value of the expected type; the two first are
  told apart (\<open>'a field\<close>) wherever the source treats them differently, and are both
  \<open>None\<close> where it does not (a score that is absent or \<^verbatim>\<open>null\<close> is a missing value, an
  identifier that is absent or \<^verbatim>\<open>null\<close> is falsy). The categories are a list of texts or
  a plain text; \<open>quality_notes\<close> is the key \<^verbatim>\<open>notes\<close> of the quality flags. Values of
  another JSON type than these are outside the model.
\<close>

datatype 'a field = Absent | Null | Present 'a

datatype categories = Category_list "string list" | Category_text string

record metrics_json =
  fluency :: cell
  flexibility :: cell
  elaboration_total :: cell
  elaboration_density :: cell
  categories_used :: "categories field"

record quality_json =
  unclear_audio :: "bool option"
  very_short_story :: "bool option"
  very_long_story :: "bool option"
  unusual_structure :: "bool option"
  quality_notes :: "string field"

record repetition_json =
  descriptors_in_stage_1 :: "string list field"
  descriptors_repeated_in_stage_2 :: "string list field"
  new_elaborations_in_stage_2 :: "string list field"

record coded_json =
  participant_id :: "string option"
  ParticipantID_key :: "string option"
  transcript_id :: "string field"
  creativity_metrics :: "metrics_json field"
  quality_flags :: "quality_json field"
  repetition_check :: "repetition_json field"

text \<open>
  A file of the folder. \<open>content\<close> is the outcome of \<^verbatim>\<open>open\<close> and \<^verbatim>\<open>json.load\<close> and of the
  first access to the document: \<open>Inl e\<close> when they raise (an unreadable file, malformed
  JSON, a document that is not an object), the parsed object otherwise.
\<close>

record json_file =
  file_name :: string
  content :: "py_error + coded_json"

definition ends_with :: "string \<Rightarrow> string \<Rightarrow> bool" where
  "ends_with suf s = (length suf \<le> length s \<and> drop (length s - length suf) s = suf)"

text \<open>\<^verbatim>\<open>Path(folder).glob("*_coded.json")\<close>, on the list of the folder's files.\<close>

definition glob_coded :: "json_file list \<Rightarrow> json_file list" where
  "glob_coded folder = filter (\<lambda>f. ends_with ''_coded.json'' (file_name f)) folder"

text \<open>\<^verbatim>\<open>json_file.stem\<close> of a file matched by the glob: the name without \<^verbatim>\<open>.json\<close>.\<close>

definition stem :: "string \<Rightarrow> string" where
  "stem name = take (length name - 5) name"

text \<open>Python's \<^verbatim>\<open>v or d\<close> for a string or None \<open>v\<close>: the empty string and None are falsy.\<close>

definition or_else :: "string option \<Rightarrow> string \<Rightarrow> string" where
  "or_else v d = (case v of None \<Rightarrow> d | Some s \<Rightarrow> if s = [] then d else s)"

text \<open>\<^verbatim>\<open>s.split('_')[0]\<close>.\<close>

definition split_first :: "string \<Rightarrow> string" where
  "split_first s = takeWhile (\<lambda>c. c \<noteq> CHR ''_'') s"

fun join_with :: "string \<Rightarrow> string list \<Rightarrow> string" where
  "join_with sep [] = []"
| "join_with sep [x] = x"
| "join_with sep (x # y # ys) = x @ sep @ join_with sep (y # ys)"

text \<open>The empty dictionary \<^verbatim>\<open>{}\<close> that \<^verbatim>\<open>data.get('creativity_metrics', {})\<close> defaults to.\<close>

definition no_metrics :: metrics_json where
  "no_metrics = \<lparr>fluency = None, flexibility = None, elaboration_total = None,
                  elaboration_density = None, categories_used = Absent\<rparr>"

text \<open>
  The value of \<^verbatim>\<open>data.get(key, {})\<close> as a dictionary that \<^verbatim>\<open>.get\<close> is then called on: the
  default for an absent key, AttributeError for \<^verbatim>\<open>null\<close> (None has no \<^verbatim>\<open>get\<close>).
\<close>

definition section_or :: "'a \<Rightarrow> 'a field \<Rightarrow> py_error + 'a" where
  "section_or d v =
     (case v of Absent \<Rightarrow> Inr d | Null \<Rightarrow> Inl AttributeError | Present x \<Rightarrow> Inr x)"

text \<open>
  The body of the \<^verbatim>\<open>try\<close> block: one file to one record, or the exception raised. The
  categories are joined when they are a list and kept as they are otherwise (None for
  \<^verbatim>\<open>null\<close>, the empty text for an absent key).
\<close>

definition read_record :: "json_file \<Rightarrow> py_error + claude_row" where
  "read_record json_file =
     (case content json_file of
        Inl e \<Rightarrow> Inl e
      | Inr data \<Rightarrow>
          (let participant_id =
                 split_first (or_else (participant_id data)
                                (or_else (ParticipantID_key data) (stem (file_name json_file))))
           in case section_or no_metrics (creativity_metrics data) of
                Inl e \<Rightarrow> Inl e
              | Inr metrics_dict \<Rightarrow>
                  Inr \<lparr>claude_row.ParticipantID = participant_id,
                       claude_row.Fluency_Claude = fluency metrics_dict,
                       claude_row.Flexibility_Claude = flexibility metrics_dict,
                       claude_row.Elaboration_Claude = elaboration_total metrics_dict,
                       claude_row.ElabDensity_Claude = elaboration_density metrics_dict,
                       claude_row.Categories_Claude =
                         (case categories_used metrics_dict of
                            Present (Category_list xs) \<Rightarrow> Some (join_with '','' xs)
                          | Present (Category_text t) \<Rightarrow> Some t
                          | Null \<Rightarrow> None
                          | Absent \<Rightarrow> Some [])\<rparr>))"

text \<open>The \<^verbatim>\<open>for json_file in json_files\<close> loop: what it prints and \<^verbatim>\<open>claude_data\<close>.\<close>

fun load_loop :: "json_file list \<Rightarrow> message list \<times> claude_row list" where
  "load_loop [] = ([], [])"
| "load_loop (json_file # rest) =
     (case read_record json_file of
        Inl e \<Rightarrow> (Error_loading (file_name json_file) e # fst (load_loop rest),
                  snd (load_loop rest))
      | Inr row \<Rightarrow> (Loaded (claude_row.ParticipantID row) # fst (load_loop rest),
                    row # snd (load_loop rest)))"

definition load_claude_json_files ::
  "json_file list \<Rightarrow> message list \<times> (py_error + claude_row list)" where
  "load_claude_json_files folder =
     (let json_files = glob_coded folder
      in if json_files = [] then ([], Inl FileNotFoundError)
         else ([Found_files (length json_files)] @ fst (load_loop json_files)
               @ [Successfully_loaded (length (snd (load_loop json_files)))],
               Inr (snd (load_loop json_files))))"

section \<open>Step 2: loading the manual coding\<close>

text \<open>The renaming of the four score columns and the selection of \<^verbatim>\<open>keep_cols\<close>.\<close>

definition load_manual_coding :: "excel_row list \<Rightarrow> message list \<times> manual_row list" where
  "load_manual_coding excel =
     (let manual_df = map (\<lambda>r. \<lparr>ParticipantID = excel_row.ParticipantID r,
                                 Fluency_Manual = Fluency r,
                                 Flexibility_Manual = Flexibility r,
                                 Elaboration_Manual = Elaboration r,
                                 Elaboration_Density_Manual = ElabDensity r\<rparr>) excel
      in ([Loaded_manual (length manual_df)], manual_df))"

section \<open>Step 3: merging the two tables\<close>

definition join_row :: "manual_row \<Rightarrow> claude_row \<Rightarrow> merged_row" where
  "join_row m c =
     \<lparr>ParticipantID = ParticipantID m,
      Fluency_Manual = Fluency_Manual m,
      Flexibility_Manual = Flexibility_Manual m,
      Elaboration_Manual = Elaboration_Manual m,
      Elaboration_Density_Manual = Elaboration_Density_Manual m,
      Fluency_Claude = claude_row.Fluency_Claude c,
      Flexibility_Claude = claude_row.Flexibility_Claude c,
      Elaboration_Claude = claude_row.Elaboration_Claude c,
      ElabDensity_Claude = claude_row.ElabDensity_Claude c,
      Categories_Claude = claude_row.Categories_Claude c,
      extra_columns = []\<rparr>"

text \<open>
  \<^verbatim>\<open>manual_df.merge(claude_df, on='ParticipantID', how='inner')\<close> of two frames that both
  have the key column: every pair of a left row and a right row with equal keys, in the
  order of the left keys.
\<close>

definition merge_inner :: "manual_row list \<Rightarrow> claude_row list \<Rightarrow> merged_row list" where
  "merge_inner manual_df claude_df =
     concat (map (\<lambda>m. map (join_row m)
                          (filter (\<lambda>c. claude_row.ParticipantID c = ParticipantID m) claude_df))
                 manual_df)"

text \<open>
  \<^verbatim>\<open>merge_datasets\<close>: what it prints and the merged table. The manual frame always has its
  columns (\<^verbatim>\<open>load_manual_coding\<close> selects them), but \<^verbatim>\<open>load_claude_json_files\<close> builds the
  automated frame with \<^verbatim>\<open>pd.DataFrame(claude_data)\<close>, and a frame built from the empty list
  has no columns: the merge, the first statement of the function, then raises
  \<^verbatim>\<open>KeyError: 'ParticipantID'\<close> before anything is printed.
\<close>

definition merge_datasets ::
  "manual_row list \<Rightarrow> claude_row list \<Rightarrow> message list \<times> (py_error + merged_row list)" where
  "merge_datasets manual_df claude_df =
     (if claude_df = [] then ([], Inl (KeyError ''ParticipantID''))
      else
       (let merged_df = merge_inner manual_df claude_df;
            manual_only = set (map ParticipantID manual_df)
                          - set (map claude_row.ParticipantID claude_df);
            claude_only = set (map claude_row.ParticipantID claude_df)
                          - set (map ParticipantID manual_df)
        in ([Merged_dataset (length merged_df)]
            @ (if manual_only \<noteq> {} then [Warning_manual_only (card manual_only) manual_only]
               else [])
            @ (if claude_only \<noteq> {} then [Warning_claude_only (card claude_only) claude_only]
               else []),
            Inr merged_df)))"

section \<open>Step 4: agreement statistics\<close>

text \<open>
  The list \<^verbatim>\<open>metrics = ['Fluency', 'Flexibility', 'Elaboration']\<close>, written out with the
  same three names in \<^verbatim>\<open>calculate_agreement_statistics\<close> and in
  \<^verbatim>\<open>analyze_discrepancies\<close>.
\<close>

definition metrics :: "string list" where
  "metrics = [''Fluency'', ''Flexibility'', ''Elaboration'']"

text \<open>
  The columns \<^verbatim>\<open>f'{metric}_Manual'\<close> and \<^verbatim>\<open>f'{metric}_Claude'\<close> of the merged frame, or the
  KeyError of the first that does not exist.
\<close>

definition metric_columns ::
  "string \<Rightarrow> py_error + ((merged_row \<Rightarrow> cell) \<times> (merged_row \<Rightarrow> cell))" where
  "metric_columns metric =
     (case merged_column (metric @ ''_Manual'') of
        None \<Rightarrow> Inl (KeyError (metric @ ''_Manual''))
      | Some manual_col \<Rightarrow>
          (case merged_column (metric @ ''_Claude'') of
             None \<Rightarrow> Inl (KeyError (metric @ ''_Claude''))
           | Some claude_col \<Rightarrow> Inr (manual_col, claude_col)))"

text \<open>
  \<^verbatim>\<open>merged_df[[manual_col, claude_col]].dropna()\<close>: the rows in which neither of the two
  selected cells is NaN, as pairs (manual value, automated value), in the order of the frame.
\<close>

definition dropna ::
  "(merged_row \<Rightarrow> cell) \<Rightarrow> (merged_row \<Rightarrow> cell) \<Rightarrow> merged_row list \<Rightarrow> (real \<times> real) list" where
  "dropna manual_col claude_col df =
     List.map_filter
       (\<lambda>r. case manual_col r of
               None \<Rightarrow> None
             | Some a \<Rightarrow> (case claude_col r of None \<Rightarrow> None | Some b \<Rightarrow> Some (a, b)))
       df"

text \<open>
  \<^verbatim>\<open>scipy.stats.pearsonr\<close>, a library function, modelled by its documented behaviour: it raises
  ValueError on samples of different lengths or of fewer than two observations; for a
  constant sample the coefficient is not defined and NaN is returned for it and for the
  p-value; for two observations the coefficient is the product of the signs of the two
  differences and the p-value 1; otherwise it is the product-moment coefficient of the
  centred, normalised samples, clipped to \<open>[-1, 1]\<close>.
\<close>

definition pearsonr :: "real list \<Rightarrow> real list \<Rightarrow> py_error + (cell \<times> pvalue)" where
  "pearsonr x y =
     (let n = length x
      in if n \<noteq> length y then Inl ValueError
         else if n < 2 then Inl ValueError
         else if list_all (\<lambda>v. v = hd x) x \<or> list_all (\<lambda>v. v = hd y) y
              then Inr (None, P_nan)
         else if n = 2
              then Inr (Some (sgn (x ! 1 - x ! 0) * sgn (y ! 1 - y ! 0)), P_exact 1)
         else (let xm = map (\<lambda>v. v - sum_list x / real n) x;
                   ym = map (\<lambda>v. v - sum_list y / real n) y;
                   normxm = sqrt (sum_list (map (\<lambda>v. v * v) xm));
                   normym = sqrt (sum_list (map (\<lambda>v. v * v) ym));
                   r = max (min (sum_list (map2 (\<lambda>a b. (a / normxm) * (b / normym)) xm ym)) 1)
                           (- 1)
               in Inr (Some r, P_beta n r)))"

text \<open>
  \<^verbatim>\<open>sklearn.metrics.mean_absolute_error\<close> (it refuses an empty sample and samples of
  different lengths), and the \<^verbatim>\<open>mean\<close> and \<^verbatim>\<open>std\<close> (sample standard deviation, one degree
  of freedom removed) of a pandas column without NaN: NaN where they are not defined.
\<close>

definition mean_absolute_error :: "real list \<Rightarrow> real list \<Rightarrow> py_error + real" where
  "mean_absolute_error y_true y_pred =
     (if length y_true \<noteq> length y_pred \<or> y_true = [] then Inl ValueError
      else Inr (sum_list (map2 (\<lambda>a b. \<bar>a - b\<bar>) y_true y_pred) / real (length y_true)))"

definition series_mean :: "real list \<Rightarrow> cell" where
  "series_mean xs = (if xs = [] then None else Some (sum_list xs / real (length xs)))"

definition series_std :: "real list \<Rightarrow> cell" where
  "series_std xs =
     (if length xs < 2 then None
      else Some (sqrt (sum_list (map (\<lambda>v. (v - sum_list xs / real (length xs))\<^sup>2) xs)
                       / real (length xs - 1))))"

text \<open>The qualitative tier printed for a correlation; every comparison with NaN is false.\<close>

definition agreement_tier :: "cell \<Rightarrow> tier" where
  "agreement_tier corr =
     (if cell_ge corr double_0_90 then Excellent
      else if cell_ge corr double_0_80 then Good
      else if cell_ge corr double_0_70 then Acceptable
      else Poor)"

definition reliability_tier :: "cell \<Rightarrow> tier" where
  "reliability_tier icc_result =
     (if cell_ge icc_result double_0_90 then Excellent
      else if cell_ge icc_result (3 / 4) then Good
      else if cell_ge icc_result (1 / 2) then Moderate
      else Poor)"

text \<open>
  The statements of the first loop's body after the guard: the statistics of one metric
  from its valid data, or the exception a library call raises.
\<close>

definition metric_statistics :: "(real \<times> real) list \<Rightarrow> py_error + agreement_result" where
  "metric_statistics valid_data =
     (let manual_vals = map fst valid_data;
          claude_vals = map snd valid_data
      in case pearsonr manual_vals claude_vals of
           Inl e \<Rightarrow> Inl e
         | Inr (corr, p) \<Rightarrow>
             (case mean_absolute_error manual_vals claude_vals of
                Inl e \<Rightarrow> Inl e
              | Inr m \<Rightarrow>
                  Inr \<lparr>correlation = corr, p_value = p, mae = m,
                       mean_difference = series_mean (map2 (-) manual_vals claude_vals),
                       std_difference = series_std (map2 (-) manual_vals claude_vals),
                       n_valid = length valid_data,
                       icc = None\<rparr>))"

text \<open>
  The loop \<^verbatim>\<open>for metric in metrics\<close> of \<^verbatim>\<open>calculate_agreement_statistics\<close>, from the
  dictionary \<^verbatim>\<open>results\<close> built so far: what it prints, and the dictionary or the exception
  that ends it.
\<close>

fun agreement_loop ::
  "merged_row list \<Rightarrow> string list \<Rightarrow> results \<Rightarrow> message list \<times> (py_error + results)" where
  "agreement_loop df [] results = ([], Inr results)"
| "agreement_loop df (metric # rest) results =
     (case metric_columns metric of
        Inl e \<Rightarrow> ([], Inl e)
      | Inr (manual_col, claude_col) \<Rightarrow>
          (if length (dropna manual_col claude_col df) = 0
           then (No_valid_data metric # fst (agreement_loop df rest results),
                 snd (agreement_loop df rest results))
           else (case metric_statistics (dropna manual_col claude_col df) of
                   Inl e \<Rightarrow> ([], Inl e)
                 | Inr entry \<Rightarrow>
                     ([Statistics metric entry, Agreement metric (agreement_tier (correlation entry))]
                      @ fst (agreement_loop df rest (AList.update metric entry results)),
                      snd (agreement_loop df rest (AList.update metric entry results))))))"

text \<open>
  \<^verbatim>\<open>pingouin.intraclass_corr\<close>, an optional library: from the long-format data (target,
  rater, rating) to its table of (Type, ICC) rows, or an exception. It is a parameter of the
  model; \<^verbatim>\<open>PINGOUIN_AVAILABLE\<close> is whether it is there.
\<close>

type_synonym pingouin = "(string \<times> string \<times> real) list \<Rightarrow> py_error + (string \<times> cell) list"

definition calculate_icc :: "pingouin \<Rightarrow> merged_row list \<Rightarrow> string \<Rightarrow> py_error + cell" where
  "calculate_icc intraclass_corr df metric =
     (case metric_columns metric of
        Inl e \<Rightarrow> Inl e
      | Inr (manual_col, claude_col) \<Rightarrow>
          (let data_long =
                 List.map_filter (\<lambda>(pid, rater, score). map_option (\<lambda>v. (pid, rater, v)) score)
                   (map (\<lambda>r. (ParticipantID r, ''Manual'', manual_col r)) df
                    @ map (\<lambda>r. (ParticipantID r, ''Claude'', claude_col r)) df)
           in case intraclass_corr data_long of
                Inl e \<Rightarrow> Inl e
              | Inr icc_result \<Rightarrow>
                  (case filter (\<lambda>(ty, v). ty = ''ICC2'') icc_result of
                     [] \<Rightarrow> Inl IndexError
                   | (ty, v) # _ \<Rightarrow> Inr v)))"

text \<open>The second loop, each round inside its own \<^verbatim>\<open>try\<close>.\<close>

fun icc_loop ::
  "pingouin \<Rightarrow> merged_row list \<Rightarrow> string list \<Rightarrow> results \<Rightarrow> message list \<times> results" where
  "icc_loop pg df [] results = ([], results)"
| "icc_loop pg df (metric # rest) results =
     (case calculate_icc pg df metric of
        Inl e \<Rightarrow> (Icc_failed metric e # fst (icc_loop pg df rest results),
                  snd (icc_loop pg df rest results))
      | Inr icc_result \<Rightarrow>
          (case map_of results metric of
             None \<Rightarrow> (Icc_failed metric (KeyError metric) # fst (icc_loop pg df rest results),
                      snd (icc_loop pg df rest results))
           | Some entry \<Rightarrow>
               ([Icc_value metric icc_result, Reliability metric (reliability_tier icc_result)]
                @ fst (icc_loop pg df rest
                         (AList.update metric (entry\<lparr>icc := Some icc_result\<rparr>) results)),
                snd (icc_loop pg df rest
                       (AList.update metric (entry\<lparr>icc := Some icc_result\<rparr>) results)))))"

definition calculate_agreement_statistics ::
  "pingouin option \<Rightarrow> merged_row list \<Rightarrow> message list \<times> (py_error + results)" where
  "calculate_agreement_statistics pingouin merged_df =
     (case snd (agreement_loop merged_df metrics []) of
        Inl e \<Rightarrow> (fst (agreement_loop merged_df metrics []), Inl e)
      | Inr results \<Rightarrow>
          (case pingouin of
             None \<Rightarrow> (fst (agreement_loop merged_df metrics []), Inr results)
           | Some pg \<Rightarrow>
               (fst (agreement_loop merged_df metrics [])
                @ fst (icc_loop pg merged_df metrics results),
                Inr (snd (icc_loop pg merged_df metrics results)))))"

section \<open>Step 5: discrepancies\<close>

text \<open>\<^verbatim>\<open>merged_df[name] = values\<close>: the column is added to every row, or replaced.\<close>

definition assign_column :: "string \<Rightarrow> cell list \<Rightarrow> merged_row list \<Rightarrow> merged_row list" where
  "assign_column name vals df =
     map2 (\<lambda>r v. r\<lparr>extra_columns := AList.update name v (extra_columns r)\<rparr>) df vals"

text \<open>
  One round of the loop of \<^verbatim>\<open>analyze_discrepancies\<close>: the two derived columns, the rows
  selected by the mask \<^verbatim>\<open>AbsDiff >= threshold\<close> (false where the value is NaN), and the line
  printed for the metric, with the table ParticipantID, manual, automated, difference.
  pandas subtracts, takes the absolute value and compares in the arithmetic of the columns,
  64-bit integers or doubles; the function below does so in the real numbers, which is the
  same on the tables that \<open>exact_scores\<close> (defined with the discrepancy flags) admits, and
  only there.
\<close>

definition discrepancy_step ::
  "real \<Rightarrow> string \<Rightarrow> merged_row list \<Rightarrow> py_error + (message \<times> merged_row list)" where
  "discrepancy_step threshold metric df =
     (case metric_columns metric of
        Inl e \<Rightarrow> Inl e
      | Inr (manual_col, claude_col) \<Rightarrow>
          (let diff = map (\<lambda>r. cell_sub (manual_col r) (claude_col r)) df;
               absdiff = map cell_abs diff;
               df' = assign_column (metric @ ''_AbsDiff'') absdiff
                       (assign_column (metric @ ''_Diff'') diff df);
               discrepancies = filter (\<lambda>(r, d, a). cell_ge a threshold) (zip df' (zip diff absdiff))
           in Inr (if length discrepancies > 0
                   then Discrepancy_cases metric (length discrepancies)
                          (map (\<lambda>(r, d, a). (ParticipantID r, manual_col r, claude_col r, d))
                               discrepancies)
                   else No_large_discrepancies metric,
                   df')))"

fun discrepancy_loop ::
  "real \<Rightarrow> string list \<Rightarrow> merged_row list \<Rightarrow> message list \<times> (py_error + merged_row list)" where
  "discrepancy_loop threshold [] df = ([], Inr df)"
| "discrepancy_loop threshold (metric # rest) df =
     (case discrepancy_step threshold metric df of
        Inl e \<Rightarrow> ([], Inl e)
      | Inr (line, df') \<Rightarrow> (line # fst (discrepancy_loop threshold rest df'),
                             snd (discrepancy_loop threshold rest df')))"

text \<open>
  \<^verbatim>\<open>analyze_discrepancies(merged_df, threshold=2)\<close>; the second argument is \<open>None\<close> when the
  caller leaves the threshold out.
\<close>

definition analyze_discrepancies ::
  "merged_row list \<Rightarrow> real option \<Rightarrow> message list \<times> (py_error + merged_row list)" where
  "analyze_discrepancies merged_df threshold_arg =
     (let threshold = (case threshold_arg of None \<Rightarrow> 2 | Some t \<Rightarrow> t)
      in (Discrepancy_analysis threshold # fst (discrepancy_loop threshold metrics merged_df),
          snd (discrepancy_loop threshold metrics merged_df)))"

section \<open>Step 7: the summary report\<close>

text \<open>
  \<^verbatim>\<open>np.mean\<close> of a list of floats: NaN for the empty list and when an element is NaN, and
  otherwise the float that NumPy computes from the numbers, \<open>fmean\<close> of them. NumPy adds
  and divides in double precision, so \<open>fmean\<close> need not be the mean of the real numbers
  (of three times \<^verbatim>\<open>0.7\<close> it is \<^verbatim>\<open>0.6999999999999998\<close>); nothing is assumed of it.
\<close>

definition np_mean :: "(real list \<Rightarrow> real) \<Rightarrow> cell list \<Rightarrow> cell" where
  "np_mean fmean xs =
     (case those xs of
        None \<Rightarrow> None
      | Some vs \<Rightarrow> if vs = [] then None else Some (fmean vs))"


text \<open>The overall assessment written at the end of the report.\<close>

definition overall_assessment :: "(real list \<Rightarrow> real) \<Rightarrow> results \<Rightarrow> conclusion" where
  "overall_assessment fmean results =
     (let avg_corr = np_mean fmean (map (\<lambda>(m, stats). correlation stats) results);
          avg_mae = np_mean fmean (map (\<lambda>(m, stats). Some (mae stats)) results)
      in if cell_ge avg_corr double_0_85 \<and> cell_lt avg_mae (3 / 2) then Excellent_agreement
         else if cell_ge avg_corr double_0_70 \<and> cell_lt avg_mae (5 / 2)
              then Good_to_moderate_agreement
         else Poor_agreement)"

text \<open>The content of the report file: sample size, the lines per metric, the conclusion.\<close>

record report =
  sample_size :: nat
  agreement_lines :: results
  overall :: conclusion

definition generate_summary_report ::
  "(real list \<Rightarrow> real) \<Rightarrow> merged_row list \<Rightarrow> results \<Rightarrow> message list \<times> report" where
  "generate_summary_report fmean merged_df results =
     ([Report_saved],
      \<lparr>sample_size = length merged_df, agreement_lines = results,
       overall = overall_assessment fmean results\<rparr>)"

section \<open>The whole run\<close>

text \<open>
  \<^verbatim>\<open>main\<close>, from the files of the JSON folder and the outcome of \<^verbatim>\<open>pd.read_excel\<close>: what is
  printed and, unless an exception ends the run in the \<^verbatim>\<open>except\<close> branch, the report
  (\<open>fmean\<close> is NumPy's mean, \<open>pingouin\<close> the ICC of the optional package).
  Writing the merged table and drawing the plots have no part in what is computed and are
  left out.
\<close>

definition main ::
  "(real list \<Rightarrow> real) \<Rightarrow> pingouin option \<Rightarrow> json_file list \<Rightarrow> py_error + excel_row list
   \<Rightarrow> message list \<times> report option" where
  "main fmean pingouin folder excel =
     (case snd (load_claude_json_files folder) of
        Inl e \<Rightarrow> (fst (load_claude_json_files folder) @ [Error_during_analysis e], None)
      | Inr claude_df \<Rightarrow>
     (case excel of
        Inl e \<Rightarrow> (fst (load_claude_json_files folder) @ [Error_during_analysis e], None)
      | Inr rows \<Rightarrow>
     (let out2 = fst (load_claude_json_files folder) @ fst (load_manual_coding rows);
          manual_df = snd (load_manual_coding rows);
          out3 = out2 @ fst (merge_datasets manual_df claude_df)
      in case snd (merge_datasets manual_df claude_df) of
           Inl e \<Rightarrow> (out3 @ [Error_during_analysis e], None)
         | Inr merged_df \<Rightarrow>
     (let out4 = out3 @ fst (calculate_agreement_statistics pingouin merged_df)
      in case snd (calculate_agreement_statistics pingouin merged_df) of
           Inl e \<Rightarrow> (out4 @ [Error_during_analysis e], None)
         | Inr results \<Rightarrow>
             (case snd (analyze_discrepancies merged_df (Some 2)) of
                Inl e \<Rightarrow> (out4 @ fst (analyze_discrepancies merged_df (Some 2))
                          @ [Error_during_analysis e], None)
              | Inr analysed_df \<Rightarrow>
                  (out4 @ fst (analyze_discrepancies merged_df (Some 2))
                   @ fst (generate_summary_report fmean analysed_df results),
                   Some (snd (generate_summary_report fmean analysed_df results))))))))"

section \<open>The metric extraction script\<close>

text \<open>
  \<^verbatim>\<open>coded_json_analyzer.py\<close> reads the same record files. Its log records, and the
  dictionary \<^verbatim>\<open>extracted_data\<close> of one file.
\<close>

datatype log_record =
    Error_folder_missing
  | Info_found nat
  | Info_extracted string
  | Error_parse string
  | Error_processing string py_error
  | Info_processed nat nat

text \<open>
  The empty dictionaries that \<^verbatim>\<open>data.get('quality_flags', {})\<close> and
  \<^verbatim>\<open>data.get('repetition_check', {})\<close> default to.
\<close>

definition no_quality :: quality_json where
  "no_quality = \<lparr>unclear_audio = None, very_short_story = None, very_long_story = None,
                  unusual_structure = None, quality_notes = Absent\<rparr>"

definition no_repetition :: repetition_json where
  "no_repetition = \<lparr>descriptors_in_stage_1 = Absent, descriptors_repeated_in_stage_2 = Absent,
                     new_elaborations_in_stage_2 = Absent\<rparr>"

text \<open>
  The list that \<^verbatim>\<open>len\<close> or \<^verbatim>\<open>', '.join\<close> is applied to: the default \<^verbatim>\<open>[]\<close> for an absent
  key, TypeError for \<^verbatim>\<open>null\<close>.
\<close>

definition list_field :: "'a list field \<Rightarrow> py_error + 'a list" where
  "list_field v =
     (case v of Absent \<Rightarrow> Inr [] | Null \<Rightarrow> Inl TypeError | Present xs \<Rightarrow> Inr xs)"

text \<open>
  \<^verbatim>\<open>', '.join(...)\<close> of the categories: joining a text joins its characters, joining
  \<^verbatim>\<open>null\<close> raises TypeError.
\<close>

definition join_categories :: "categories field \<Rightarrow> py_error + string" where
  "join_categories v =
     (case v of
        Absent \<Rightarrow> Inr []
      | Null \<Rightarrow> Inl TypeError
      | Present (Category_list xs) \<Rightarrow> Inr (join_with '', '' xs)
      | Present (Category_text t) \<Rightarrow> Inr (join_with '', '' (map (\<lambda>c. [c]) t)))"

text \<open>
  The dictionary \<^verbatim>\<open>extracted_data\<close>; \<open>transcript_id\<close> and \<open>quality_notes\<close> are \<open>None\<close> when
  the document has \<^verbatim>\<open>null\<close> there.
\<close>

record extracted_data =
  transcript_id :: "string option"
  file_name :: string
  fluency :: cell
  flexibility :: cell
  elaboration_total :: cell
  elaboration_density :: cell
  categories_used :: string
  unclear_audio :: "bool option"
  very_short_story :: "bool option"
  very_long_story :: "bool option"
  unusual_structure :: "bool option"
  quality_notes :: "string option"
  descriptors_in_stage_1_count :: nat
  descriptors_repeated_in_stage_2_count :: nat
  new_elaborations_in_stage_2 :: string
  new_elaborations_count :: nat

text \<open>The folder is \<open>None\<close> when it does not exist.\<close>

definition find_coded_json_files ::
  "json_file list option \<Rightarrow> log_record list \<times> json_file list" where
  "find_coded_json_files folder =
     (case folder of
        None \<Rightarrow> ([Error_folder_missing], [])
      | Some files \<Rightarrow> ([Info_found (length (glob_coded files))], glob_coded files))"

text \<open>
  The dictionary built inside the \<^verbatim>\<open>try\<close> block of \<^verbatim>\<open>extract_metrics_from_file\<close>, its
  entries evaluated in the order of the source, or the first exception: AttributeError when
  a section that \<^verbatim>\<open>.get\<close> is called on is \<^verbatim>\<open>null\<close>, TypeError when a list that is joined
  or counted is \<^verbatim>\<open>null\<close>.
\<close>

definition extract_data :: "string \<Rightarrow> coded_json \<Rightarrow> py_error + extracted_data" where
  "extract_data name data =
     (case section_or no_metrics (creativity_metrics data) of
        Inl e \<Rightarrow> Inl e
      | Inr cm \<Rightarrow>
     (case join_categories (metrics_json.categories_used cm) of
        Inl e \<Rightarrow> Inl e
      | Inr categories \<Rightarrow>
     (case section_or no_quality (quality_flags data) of
        Inl e \<Rightarrow> Inl e
      | Inr qf \<Rightarrow>
     (case section_or no_repetition (repetition_check data) of
        Inl e \<Rightarrow> Inl e
      | Inr rc \<Rightarrow>
     (case list_field (descriptors_in_stage_1 rc) of
        Inl e \<Rightarrow> Inl e
      | Inr stage_1 \<Rightarrow>
     (case list_field (descriptors_repeated_in_stage_2 rc) of
        Inl e \<Rightarrow> Inl e
      | Inr repeated \<Rightarrow>
     (case list_field (repetition_json.new_elaborations_in_stage_2 rc) of
        Inl e \<Rightarrow> Inl e
      | Inr new_elaborations \<Rightarrow>
          Inr \<lparr>transcript_id =
                 (case coded_json.transcript_id data of
                    Absent \<Rightarrow> Some ''unknown'' | Null \<Rightarrow> None | Present t \<Rightarrow> Some t),
               file_name = name,
               fluency = metrics_json.fluency cm,
               flexibility = metrics_json.flexibility cm,
               elaboration_total = metrics_json.elaboration_total cm,
               elaboration_density = metrics_json.elaboration_density cm,
               categories_used = categories,
               unclear_audio = quality_json.unclear_audio qf,
               very_short_story = quality_json.very_short_story qf,
               very_long_story = quality_json.very_long_story qf,
               unusual_structure = quality_json.unusual_structure qf,
               quality_notes =
                 (case quality_json.quality_notes qf of
                    Absent \<Rightarrow> Some [] | Null \<Rightarrow> None | Present t \<Rightarrow> Some t),
               descriptors_in_stage_1_count = length stage_1,
               descriptors_repeated_in_stage_2_count = length repeated,
               new_elaborations_in_stage_2 = join_with '', '' new_elaborations,
               new_elaborations_count = length new_elaborations\<rparr>)))))))"

text \<open>
  \<^verbatim>\<open>extract_metrics_from_file\<close>: the log record and the dictionary, or \<open>None\<close> from one of
  the two \<^verbatim>\<open>except\<close> branches.
\<close>

definition extract_metrics_from_file :: "json_file \<Rightarrow> log_record \<times> extracted_data option" where
  "extract_metrics_from_file file_path =
     (case content file_path of
        Inl e \<Rightarrow> (if e = JSONDecodeError then Error_parse (json_file.file_name file_path)
                   else Error_processing (json_file.file_name file_path) e,
                  None)
      | Inr data \<Rightarrow>
          (case extract_data (json_file.file_name file_path) data of
             Inl e \<Rightarrow> (Error_processing (json_file.file_name file_path) e, None)
           | Inr extracted \<Rightarrow> (Info_extracted (json_file.file_name file_path), Some extracted)))"

text \<open>The loop of \<^verbatim>\<open>collect_all_metrics\<close> over the files found.\<close>

fun collect_loop :: "json_file list \<Rightarrow> log_record list \<times> extracted_data list" where
  "collect_loop [] = ([], [])"
| "collect_loop (file_path # rest) =
     (case snd (extract_metrics_from_file file_path) of
        None \<Rightarrow> (fst (extract_metrics_from_file file_path) # fst (collect_loop rest),
                 snd (collect_loop rest))
      | Some metrics_of_file \<Rightarrow>
          (fst (extract_metrics_from_file file_path) # fst (collect_loop rest),
           metrics_of_file # snd (collect_loop rest)))"

definition collect_all_metrics ::
  "json_file list option \<Rightarrow> log_record list \<times> extracted_data list" where
  "collect_all_metrics folder =
     (let coded_files = snd (find_coded_json_files folder);
          all_metrics = snd (collect_loop coded_files)
      in (fst (find_coded_json_files folder) @ fst (collect_loop coded_files)
          @ [Info_processed (length all_metrics) (length coded_files)],
          all_metrics))"

section \<open>Example tables\<close>

text \<open>
  The second end-to-end scenario of the specification: P01 is coded manually only, P02
  automatically only, P03 by both, with Fluency 4 (manual) and 6 (automated).
\<close>

definition manual_of :: "string \<Rightarrow> cell \<Rightarrow> cell \<Rightarrow> cell \<Rightarrow> manual_row" where
  "manual_of pid f x e =
     \<lparr>ParticipantID = pid, Fluency_Manual = f, Flexibility_Manual = x,
      Elaboration_Manual = e, Elaboration_Density_Manual = None\<rparr>"

definition claude_of :: "string \<Rightarrow> cell \<Rightarrow> cell \<Rightarrow> cell \<Rightarrow> claude_row" where
  "claude_of pid f x e =
     \<lparr>claude_row.ParticipantID = pid, claude_row.Fluency_Claude = f,
      claude_row.Flexibility_Claude = x, claude_row.Elaboration_Claude = e,
      claude_row.ElabDensity_Claude = None, claude_row.Categories_Claude = Some []\<rparr>"

definition scenario2_manual :: "manual_row list" where
  "scenario2_manual = [manual_of ''P01'' (Some 5) None None, manual_of ''P03'' (Some 4) None None]"

definition scenario2_claude :: "claude_row list" where
  "scenario2_claude = [claude_of ''P02'' (Some 3) None None, claude_of ''P03'' (Some 6) None None]"

section \<open>Discrepancy flags\<close>

text \<open>
  The discrepancy flags of a run of \<^verbatim>\<open>analyze_discrepancies\<close> are the rows of the tables it
  prints, each with the metric of its table.
\<close>

fun flags_of_line :: "message \<Rightarrow> (string \<times> discrepancy_row) list" where
  "flags_of_line (Discrepancy_cases metric k rows) = map (\<lambda>row. (metric, row)) rows"
| "flags_of_line _ = []"

definition discrepancy_flags :: "merged_row list \<Rightarrow> real option \<Rightarrow> (string \<times> discrepancy_row) list" where
  "discrepancy_flags merged_df threshold_arg =
     concat (map flags_of_line (fst (analyze_discrepancies merged_df threshold_arg)))"

text \<open>
  The tables on which the arithmetic of \<^verbatim>\<open>analyze_discrepancies\<close> is exact: every score of
  the three dimensions is missing or a whole number of magnitude below \<open>2^52\<close> (scores are
  counts). A difference of two such scores is a whole number of magnitude below \<open>2^53\<close>,
  which a 64-bit integer and a double both hold, as they hold its absolute value, and the
  comparison of a double or an integer with the threshold is exact.
\<close>

definition exact_score :: "cell \<Rightarrow> bool" where
  "exact_score c =
     (case c of None \<Rightarrow> True | Some x \<Rightarrow> x = real_of_int \<lfloor>x\<rfloor> \<and> \<bar>x\<bar> < 2 ^ 52)"

definition exact_scores :: "merged_row list \<Rightarrow> bool" where
  "exact_scores df =
     list_all (\<lambda>r. exact_score (Fluency_Manual r) \<and> exact_score (Fluency_Claude r)
                  \<and> exact_score (Flexibility_Manual r) \<and> exact_score (Flexibility_Claude r)
                  \<and> exact_score (Elaboration_Manual r) \<and> exact_score (Elaboration_Claude r)) df"

text \<open>The mask \<^verbatim>\<open>AbsDiff >= threshold\<close> in terms of the two score cells.\<close>

definition exceeds :: "real \<Rightarrow> cell \<Rightarrow> cell \<Rightarrow> bool" where
  "exceeds T manual automated =
     (case manual of None \<Rightarrow> False
      | Some m \<Rightarrow> (case automated of None \<Rightarrow> False | Some a \<Rightarrow> \<bar>m - a\<bar> \<ge> T))"

text \<open>
  The specification of the Discrepancy Detector, in its words: one flag per (subject,
  dimension) where both values are present and \<open>abs(manual - automated) >= threshold\<close>, with
  \<open>difference = manual - automated\<close>; a subject with a missing value in either source is
  excluded for that dimension.
\<close>

definition spec_flag ::
  "real \<Rightarrow> string \<Rightarrow> string \<Rightarrow> cell \<Rightarrow> cell \<Rightarrow> (string \<times> discrepancy_row) list" where
  "spec_flag T dimension subject manual automated =
     (case manual of
        None \<Rightarrow> []
      | Some m \<Rightarrow>
          (case automated of
             None \<Rightarrow> []
           | Some a \<Rightarrow> if \<bar>m - a\<bar> \<ge> T
                       then [(dimension, subject, Some m, Some a, Some (m - a))] else []))"

definition spec_flags :: "real \<Rightarrow> merged_row list \<Rightarrow> (string \<times> discrepancy_row) list" where
  "spec_flags T rows =
     concat (map (\<lambda>r. spec_flag T ''Fluency'' (ParticipantID r)
                          (Fluency_Manual r) (Fluency_Claude r)) rows)
     @ concat (map (\<lambda>r. spec_flag T ''Flexibility'' (ParticipantID r)
                            (Flexibility_Manual r) (Flexibility_Claude r)) rows)
     @ concat (map (\<lambda>r. spec_flag T ''Elaboration'' (ParticipantID r)
                            (Elaboration_Manual r) (Elaboration_Claude r)) rows)"

text \<open>The aligned table of the second scenario.\<close>

definition scenario2_merged :: "merged_row list" where
  "scenario2_merged = projr (snd (merge_datasets scenario2_manual scenario2_claude))"

section \<open>Example folder\<close>

text \<open>
  A folder with two well-formed record files (the second without an identifier of its own),
  one file that is not valid JSON, and a file the glob does not match.
\<close>

definition coded_record :: "string option \<Rightarrow> cell \<Rightarrow> coded_json" where
  "coded_record pid f =
     \<lparr>participant_id = pid, ParticipantID_key = None, coded_json.transcript_id = Absent,
      creativity_metrics =
        Present \<lparr>metrics_json.fluency = f, metrics_json.flexibility = Some 3,
                 metrics_json.elaboration_total = Some 1,
                 metrics_json.elaboration_density = Some (1 / 5),
                 metrics_json.categories_used = Present (Category_list [''character'', ''action''])\<rparr>,
      quality_flags = Absent, repetition_check = Absent\<rparr>"

text \<open>
  Two documents that parse as JSON objects but have \<^verbatim>\<open>null\<close> for a section: the quality
  flags (which only the extraction script reads) and the creativity metrics (which both
  scripts read).
\<close>

definition null_quality_record :: coded_json where
  "null_quality_record = (coded_record (Some ''P05'') (Some 7))\<lparr>quality_flags := Null\<rparr>"

definition null_metrics_record :: coded_json where
  "null_metrics_record = (coded_record (Some ''P06'') (Some 8))\<lparr>creativity_metrics := Null\<rparr>"

definition example_folder :: "json_file list" where
  "example_folder =
     [\<lparr>json_file.file_name = ''P01_coded.json'', content = Inr (coded_record (Some ''P01'') (Some 5))\<rparr>,
      \<lparr>json_file.file_name = ''P02_coded.json'', content = Inl JSONDecodeError\<rparr>,
      \<lparr>json_file.file_name = ''P03_coded.json'', content = Inr (coded_record None (Some 6))\<rparr>,
      \<lparr>json_file.file_name = ''P05_coded.json'', content = Inr null_quality_record\<rparr>,
      \<lparr>json_file.file_name = ''P06_coded.json'', content = Inr null_metrics_record\<rparr>,
      \<lparr>json_file.file_name = ''notes.txt'', content = Inl OSError\<rparr>]"

section \<open>Example without a readable record\<close>



section \<open>Example with a duplicated identifier\<close>

text \<open>
  Two record files of the same participant (neither names the participant, so both
  identifiers come from the file names) and a manual table with that participant.
\<close>

definition duplicate_folder :: "json_file list" where
  "duplicate_folder =
     [\<lparr>json_file.file_name = ''P03_a_coded.json'', content = Inr (coded_record None (Some 6))\<rparr>,
      \<lparr>json_file.file_name = ''P03_b_coded.json'', content = Inr (coded_record None (Some 2))\<rparr>]"

definition duplicate_manual :: "manual_row list" where
  "duplicate_manual = [manual_of ''P03'' (Some 4) None None]"

section \<open>Valid pairs\<close>

text \<open>The valid data \<^verbatim>\<open>calculate_agreement_statistics\<close> computes for a metric.\<close>

definition valid_data :: "string \<Rightarrow> merged_row list \<Rightarrow> (real \<times> real) list" where
  "valid_data metric df =
     (case metric_columns metric of
        Inl e \<Rightarrow> []
      | Inr (manual_col, claude_col) \<Rightarrow> dropna manual_col claude_col df)"

text \<open>
  The specification's valid pairs of a dimension: the subjects where both the manual and
  the automated value of that dimension are present, whatever their other values are.
\<close>

definition both_present :: "cell \<Rightarrow> cell \<Rightarrow> (real \<times> real) list" where
  "both_present manual automated =
     (case manual of
        None \<Rightarrow> []
      | Some a \<Rightarrow> (case automated of None \<Rightarrow> [] | Some b \<Rightarrow> [(a, b)]))"

definition complete_cases :: "string \<Rightarrow> merged_row list \<Rightarrow> (real \<times> real) list" where
  "complete_cases dimension rows =
     (if dimension = ''Fluency''
      then concat (map (\<lambda>r. both_present (Fluency_Manual r) (Fluency_Claude r)) rows)
      else if dimension = ''Flexibility''
      then concat (map (\<lambda>r. both_present (Flexibility_Manual r) (Flexibility_Claude r)) rows)
      else if dimension = ''Elaboration''
      then concat (map (\<lambda>r. both_present (Elaboration_Manual r) (Elaboration_Claude r)) rows)
      else [])"


section \<open>Example results\<close>


section \<open>A run with a single valid pair\<close>

text \<open>
  Two subjects coded by both sources. The manual Fluency of P04 is missing, so Fluency has
  one valid pair; Flexibility and Elaboration have two.
\<close>

definition single_pair_folder :: "json_file list" where
  "single_pair_folder =
     [\<lparr>json_file.file_name = ''P03_coded.json'', content = Inr (coded_record (Some ''P03'') (Some 6))\<rparr>,
      \<lparr>json_file.file_name = ''P04_coded.json'', content = Inr (coded_record (Some ''P04'') (Some 5))\<rparr>]"

definition single_pair_excel :: "excel_row list" where
  "single_pair_excel =
     [\<lparr>excel_row.ParticipantID = ''P03'', Fluency = Some 4, Flexibility = Some 3,
       Elaboration = Some 1, ElabDensity = None\<rparr>,
      \<lparr>excel_row.ParticipantID = ''P04'', Fluency = None, Flexibility = Some 2,
       Elaboration = Some 2, ElabDensity = None\<rparr>]"

definition single_pair_merged :: "merged_row list" where
  "single_pair_merged =
     projr (snd (merge_datasets (snd (load_manual_coding single_pair_excel))
                   (projr (snd (load_claude_json_files single_pair_folder)))))"

section \<open>Zero variance\<close>

text \<open>A sample has zero variance when all its values are equal.\<close>

definition zero_variance :: "real list \<Rightarrow> bool" where
  "zero_variance xs = list_all (\<lambda>v. v = hd xs) xs"

text \<open>Two subjects with the same manual Fluency and different automated Fluency.\<close>

definition constant_manual :: "merged_row list" where
  "constant_manual =
     [join_row (manual_of ''P01'' (Some 5) None None) (claude_of ''P01'' (Some 5) None None),
      join_row (manual_of ''P02'' (Some 5) None None) (claude_of ''P02'' (Some 3) None None)]"

section \<open>Properties of the merge\<close>




lemma merge_datasets_nonempty:
  "claude_df \<noteq> [] \<Longrightarrow>
     merge_datasets manual_df claude_df =
       ([Merged_dataset (length (merge_inner manual_df claude_df))]
        @ (if set (map ParticipantID manual_df) - set (map claude_row.ParticipantID claude_df) \<noteq> {}
           then [Warning_manual_only
                   (card (set (map ParticipantID manual_df)
                          - set (map claude_row.ParticipantID claude_df)))
                   (set (map ParticipantID manual_df)
                    - set (map claude_row.ParticipantID claude_df))]
           else [])
        @ (if set (map claude_row.ParticipantID claude_df) - set (map ParticipantID manual_df) \<noteq> {}
           then [Warning_claude_only
                   (card (set (map claude_row.ParticipantID claude_df)
                          - set (map ParticipantID manual_df)))
                   (set (map claude_row.ParticipantID claude_df)
                    - set (map ParticipantID manual_df))]
           else []),
        Inr (merge_inner manual_df claude_df))"
  by (simp add: merge_datasets_def Let_def)




section \<open>Properties of the discrepancy analysis\<close>

lemma metric_columns_metrics:
  "metric_columns ''Fluency'' = Inr (Fluency_Manual, Fluency_Claude)"
  "metric_columns ''Flexibility'' = Inr (Flexibility_Manual, Flexibility_Claude)"
  "metric_columns ''Elaboration'' = Inr (Elaboration_Manual, Elaboration_Claude)"
  by (simp_all add: metric_columns_def merged_column_def)

lemma assign_column_map:
  "assign_column name (map h xs) (map u xs) =
     map (\<lambda>x. (u x)\<lparr>extra_columns := AList.update name (h x) (extra_columns (u x))\<rparr>) xs"
  by (induction xs) (simp_all add: assign_column_def)

lemma cell_ge_abs_sub: "cell_ge (cell_abs (cell_sub a b)) T = exceeds T a b"
  by (simp add: cell_ge_def cell_abs_def cell_sub_def exceeds_def split: option.splits)

lemma zip3_map: "zip (map u xs) (zip (map f xs) (map g xs)) = map (\<lambda>x. (u x, f x, g x)) xs"
  by (induction xs) simp_all

lemma discrepancy_step_rowwise:
  assumes "metric_columns metric = Inr (mc, cc)"
  shows "discrepancy_step T metric df =
     Inr (if filter (\<lambda>r. exceeds T (mc r) (cc r)) df \<noteq> []
          then Discrepancy_cases metric (length (filter (\<lambda>r. exceeds T (mc r) (cc r)) df))
                 (map (\<lambda>r. (ParticipantID r,
                             mc (r\<lparr>extra_columns := AList.update (metric @ ''_AbsDiff'') (cell_abs (cell_sub (mc r) (cc r)))
                                     (AList.update (metric @ ''_Diff'') (cell_sub (mc r) (cc r)) (extra_columns r))\<rparr>),
                             cc (r\<lparr>extra_columns := AList.update (metric @ ''_AbsDiff'') (cell_abs (cell_sub (mc r) (cc r)))
                                     (AList.update (metric @ ''_Diff'') (cell_sub (mc r) (cc r)) (extra_columns r))\<rparr>),
                             cell_sub (mc r) (cc r)))
                      (filter (\<lambda>r. exceeds T (mc r) (cc r)) df))
          else No_large_discrepancies metric,
          map (\<lambda>r. r\<lparr>extra_columns := AList.update (metric @ ''_AbsDiff'') (cell_abs (cell_sub (mc r) (cc r)))
                                     (AList.update (metric @ ''_Diff'') (cell_sub (mc r) (cc r)) (extra_columns r))\<rparr>) df)"
  unfolding discrepancy_step_def assms
  by (simp add: Let_def assign_column_map zip3_map filter_map comp_def cell_ge_abs_sub
        assign_column_map [of _ _ _ "\<lambda>r. r", simplified])

lemma flagged_rows_spec:
  "map (\<lambda>r. (d, (ParticipantID r, mc r, cc r, cell_sub (mc r) (cc r))))
       (filter (\<lambda>r. exceeds T (mc r) (cc r)) df)
   = concat (map (\<lambda>r. spec_flag T d (ParticipantID r) (mc r) (cc r)) df)"
  by (induction df)
     (auto simp: exceeds_def spec_flag_def cell_sub_def split: option.splits)

lemma discrepancy_flags_threshold:
  "concat (map flags_of_line (fst (discrepancy_loop T metrics df))) = spec_flags T df
   \<and> (\<exists>df'. snd (discrepancy_loop T metrics df) = Inr df')"
  unfolding metrics_def spec_flags_def
  by (simp add: discrepancy_step_rowwise [OF metric_columns_metrics(1)]
        discrepancy_step_rowwise [OF metric_columns_metrics(2)]
        discrepancy_step_rowwise [OF metric_columns_metrics(3)]
        filter_map comp_def flagged_rows_spec [symmetric])

text \<open>
  Claim C3. For every aligned table whose scores are whole numbers of magnitude below
  \<open>2^52\<close> or missing, and every threshold of magnitude at most \<open>2^53\<close>,
  \<^verbatim>\<open>analyze_discrepancies\<close> returns without an exception and the flags it prints are exactly
  those of the specification: a flag for a subject and a dimension if and only if both
  values are present and \<open>abs(manual - automated) >= threshold\<close>, never for a pair with a
  missing value, with the difference \<open>manual - automated\<close>. A caller that gives no threshold
  gets the threshold 2. (The two bounds are those within which the model's arithmetic is
  that of pandas; the proof does not use them.)
\<close>

theorem analyze_discrepancies_flags:
  assumes "exact_scores df" and "\<bar>T\<bar> \<le> 2 ^ 53"
  shows "discrepancy_flags df (Some T) = spec_flags T df
       \<and> discrepancy_flags df None = spec_flags 2 df
       \<and> (\<exists>df'. snd (analyze_discrepancies df (Some T)) = Inr df')
       \<and> (\<exists>df'. snd (analyze_discrepancies df None) = Inr df')"
  using discrepancy_flags_threshold [of T df] discrepancy_flags_threshold [of 2 df]
  by (simp add: discrepancy_flags_def analyze_discrepancies_def Let_def)

lemma scenario2_merged_eq:
  "scenario2_merged = [join_row (manual_of ''P03'' (Some 4) None None) (claude_of ''P03'' (Some 6) None None)]"
  by (simp add: scenario2_merged_def merge_datasets_def merge_inner_def Let_def
        scenario2_manual_def scenario2_claude_def manual_of_def claude_of_def)

theorem analyze_discrepancies_flags_witness:
  "exact_scores scenario2_merged \<and> \<bar>3 :: real\<bar> \<le> 2 ^ 53
   \<and> discrepancy_flags scenario2_merged None = [(''Fluency'', ''P03'', Some 4, Some 6, Some (- 2))]
   \<and> discrepancy_flags scenario2_merged (Some 3) = []"
proof -
  have e: "exact_scores scenario2_merged"
    by (simp add: scenario2_merged_eq exact_scores_def exact_score_def join_row_def
          manual_of_def claude_of_def)
  have t: "\<bar>3 :: real\<bar> \<le> 2 ^ 53" by simp
  show ?thesis
    using analyze_discrepancies_flags [OF e t] e
    by (simp add: scenario2_merged_eq spec_flags_def spec_flag_def join_row_def manual_of_def
          claude_of_def)
qed

lemma discrepancy_flags_eq:
  "discrepancy_flags df threshold_arg
   = spec_flags (case threshold_arg of None \<Rightarrow> 2 | Some t \<Rightarrow> t) df"
  using discrepancy_flags_threshold [of "case threshold_arg of None \<Rightarrow> 2 | Some t \<Rightarrow> t" df]
  by (simp add: discrepancy_flags_def analyze_discrepancies_def Let_def)

lemma spec_flag_mono:
  "T1 \<le> T2 \<Longrightarrow> set (spec_flag T2 d s m a) \<subseteq> set (spec_flag T1 d s m a)"
  by (auto simp: spec_flag_def split: option.splits)

text \<open>
  Claim C9. For thresholds \<open>T1 \<le> T2\<close>, every flag printed at the threshold \<open>T2\<close> is also
  printed at \<open>T1\<close>: lowering the threshold only adds flags.
\<close>

theorem discrepancy_flags_monotone:
  assumes "T1 \<le> T2"
  shows "set (discrepancy_flags df (Some T2)) \<subseteq> set (discrepancy_flags df (Some T1))"
  using spec_flag_mono [OF assms]
  by (fastforce simp: discrepancy_flags_eq spec_flags_def)

theorem discrepancy_flags_monotone_witness:
  "(1::real) \<le> 2
   \<and> set (discrepancy_flags scenario2_merged (Some 2))
       \<subseteq> set (discrepancy_flags scenario2_merged (Some 1))
   \<and> discrepancy_flags scenario2_merged (Some 2) = [(''Fluency'', ''P03'', Some 4, Some 6, Some (- 2))]"
proof -
  have le: "(1::real) \<le> 2" by simp
  have fl: "discrepancy_flags scenario2_merged (Some 2) = [(''Fluency'', ''P03'', Some 4, Some 6, Some (- 2))]"
    by (simp add: discrepancy_flags_eq scenario2_merged_eq spec_flags_def spec_flag_def
          join_row_def manual_of_def claude_of_def)
  show ?thesis
    using discrepancy_flags_monotone [OF le, of scenario2_merged] le fl by simp
qed

section \<open>Properties of the loaders\<close>

lemma read_record_Inl: "content f = Inl e \<Longrightarrow> read_record f = Inl e"
  by (simp add: read_record_def)

lemma load_loop_rows:
  "snd (load_loop fs) = concat (map (\<lambda>f. case read_record f of Inl e \<Rightarrow> [] | Inr row \<Rightarrow> [row]) fs)"
  by (induction fs) (simp_all split: sum.splits)

lemma load_loop_length:
  "length (snd (load_loop fs)) = length (filter (\<lambda>f. \<not> isl (read_record f)) fs)"
  by (induction fs) (simp_all split: sum.splits)

lemma load_loop_errors:
  "f \<in> set fs \<Longrightarrow> read_record f = Inl e \<Longrightarrow> Error_loading (json_file.file_name f) e \<in> set (fst (load_loop fs))"
  by (induction fs) (auto split: sum.splits)

lemma collect_loop_rows:
  "snd (collect_loop fs) = concat (map (\<lambda>f. case snd (extract_metrics_from_file f) of None \<Rightarrow> [] | Some m \<Rightarrow> [m]) fs)"
  by (induction fs) (simp_all split: option.splits)

lemma extract_None: "content f = Inl e \<Longrightarrow> snd (extract_metrics_from_file f) = None"
  by (simp add: extract_metrics_from_file_def)

lemma collect_loop_length:
  "length (snd (collect_loop fs)) = length (filter (\<lambda>f. snd (extract_metrics_from_file f) \<noteq> None) fs)"
  by (induction fs) (simp_all split: option.splits)

lemma collect_loop_log:
  "f \<in> set fs \<Longrightarrow> fst (extract_metrics_from_file f) \<in> set (fst (collect_loop fs))"
  by (induction fs) (auto split: option.splits)

lemma extract_log:
  "content f = Inl e \<Longrightarrow>
     fst (extract_metrics_from_file f) =
       (if e = JSONDecodeError then Error_parse (json_file.file_name f)
        else Error_processing (json_file.file_name f) e)"
  by (simp add: extract_metrics_from_file_def)

text \<open>
  Claim C8. For every folder with at least one record file, \<^verbatim>\<open>load_claude_json_files\<close>
  returns a table and raises nothing. The table holds, in the order of the files, one row
  for each file that the body of the loop reads without an exception, and none for any
  other file; a file whose content fails to parse is among the latter, and every file that
  raises is reported in an error line of its own, with its name and the exception.
  \<^verbatim>\<open>collect_all_metrics\<close> of the extraction script, on its own outcome for each file, does
  the same: its list holds the dictionaries of the files that \<^verbatim>\<open>extract_metrics_from_file\<close>
  returns one for, a file whose content fails to parse returns none and is logged as an
  error with its name. The two scripts need not keep the same files.
\<close>

theorem load_isolates_parse_errors:
  assumes "glob_coded folder \<noteq> []"
  shows "snd (load_claude_json_files folder) =
           Inr (concat (map (\<lambda>f. case read_record f of Inl e \<Rightarrow> [] | Inr row \<Rightarrow> [row])
                            (glob_coded folder)))
       \<and> (\<forall>f \<in> set (glob_coded folder). \<forall>e. content f = Inl e \<longrightarrow> read_record f = Inl e)
       \<and> (\<forall>f \<in> set (glob_coded folder). \<forall>e. read_record f = Inl e \<longrightarrow>
             Error_loading (json_file.file_name f) e \<in> set (fst (load_claude_json_files folder)))
       \<and> length (projr (snd (load_claude_json_files folder)))
           = length (filter (\<lambda>f. \<not> isl (read_record f)) (glob_coded folder))
       \<and> snd (collect_all_metrics (Some folder)) =
           concat (map (\<lambda>f. case snd (extract_metrics_from_file f) of None \<Rightarrow> [] | Some m \<Rightarrow> [m])
                       (glob_coded folder))
       \<and> length (snd (collect_all_metrics (Some folder)))
           = length (filter (\<lambda>f. snd (extract_metrics_from_file f) \<noteq> None) (glob_coded folder))
       \<and> (\<forall>f \<in> set (glob_coded folder). \<forall>e. content f = Inl e \<longrightarrow>
             snd (extract_metrics_from_file f) = None
             \<and> (if e = JSONDecodeError then Error_parse (json_file.file_name f)
                 else Error_processing (json_file.file_name f) e)
               \<in> set (fst (collect_all_metrics (Some folder))))
       \<and> (\<forall>f \<in> set (glob_coded folder).
             fst (extract_metrics_from_file f) \<in> set (fst (collect_all_metrics (Some folder))))"
proof -
  let ?fs = "glob_coded folder"
  have load: "load_claude_json_files folder =
      ([Found_files (length ?fs)] @ fst (load_loop ?fs)
         @ [Successfully_loaded (length (snd (load_loop ?fs)))],
       Inr (snd (load_loop ?fs)))"
    using assms by (simp add: load_claude_json_files_def Let_def)
  have collect: "collect_all_metrics (Some folder) =
      ([Info_found (length ?fs)] @ fst (collect_loop ?fs)
         @ [Info_processed (length (snd (collect_loop ?fs))) (length ?fs)],
       snd (collect_loop ?fs))"
    by (simp add: collect_all_metrics_def find_coded_json_files_def Let_def)
  have 1: "snd (load_claude_json_files folder) =
           Inr (concat (map (\<lambda>f. case read_record f of Inl e \<Rightarrow> [] | Inr row \<Rightarrow> [row]) ?fs))"
    by (simp add: load load_loop_rows [symmetric])
  have 2: "\<forall>f \<in> set ?fs. \<forall>e. content f = Inl e \<longrightarrow> read_record f = Inl e"
    by (simp add: read_record_Inl)
  have 3: "\<forall>f \<in> set ?fs. \<forall>e. read_record f = Inl e \<longrightarrow>
             Error_loading (json_file.file_name f) e \<in> set (fst (load_claude_json_files folder))"
    by (simp add: load load_loop_errors)
  have 4: "length (projr (snd (load_claude_json_files folder)))
           = length (filter (\<lambda>f. \<not> isl (read_record f)) ?fs)"
    by (simp add: load load_loop_length)
  have 5: "snd (collect_all_metrics (Some folder)) =
           concat (map (\<lambda>f. case snd (extract_metrics_from_file f) of None \<Rightarrow> [] | Some m \<Rightarrow> [m]) ?fs)"
    by (simp add: collect collect_loop_rows [symmetric])
  have 6: "length (snd (collect_all_metrics (Some folder)))
           = length (filter (\<lambda>f. snd (extract_metrics_from_file f) \<noteq> None) ?fs)"
    by (simp add: collect collect_loop_length)
  have 8: "\<forall>f \<in> set ?fs.
             fst (extract_metrics_from_file f) \<in> set (fst (collect_all_metrics (Some folder)))"
    by (simp add: collect collect_loop_log)
  have 7: "\<forall>f \<in> set ?fs. \<forall>e. content f = Inl e \<longrightarrow>
             snd (extract_metrics_from_file f) = None
             \<and> (if e = JSONDecodeError then Error_parse (json_file.file_name f)
                 else Error_processing (json_file.file_name f) e)
               \<in> set (fst (collect_all_metrics (Some folder)))"
  proof (intro ballI allI impI conjI)
    fix f e assume f: "f \<in> set ?fs" and c: "content f = Inl e"
    show "snd (extract_metrics_from_file f) = None" by (rule extract_None [OF c])
    show "(if e = JSONDecodeError then Error_parse (json_file.file_name f)
           else Error_processing (json_file.file_name f) e)
          \<in> set (fst (collect_all_metrics (Some folder)))"
      using 8 f extract_log [OF c] by metis
  qed
  from 1 2 3 4 5 6 7 8 show ?thesis by blast
qed

lemma glob_example:
  "glob_coded example_folder =
     [\<lparr>json_file.file_name = ''P01_coded.json'', content = Inr (coded_record (Some ''P01'') (Some 5))\<rparr>,
      \<lparr>json_file.file_name = ''P02_coded.json'', content = Inl JSONDecodeError\<rparr>,
      \<lparr>json_file.file_name = ''P03_coded.json'', content = Inr (coded_record None (Some 6))\<rparr>,
      \<lparr>json_file.file_name = ''P05_coded.json'', content = Inr null_quality_record\<rparr>,
      \<lparr>json_file.file_name = ''P06_coded.json'', content = Inr null_metrics_record\<rparr>]"
  by (simp add: glob_coded_def example_folder_def ends_with_def)

theorem load_isolates_parse_errors_witness:
  "glob_coded example_folder \<noteq> []
   \<and> map claude_row.ParticipantID (projr (snd (load_claude_json_files example_folder)))
       = [''P01'', ''P03'', ''P05'']
   \<and> Error_loading ''P02_coded.json'' JSONDecodeError \<in> set (fst (load_claude_json_files example_folder))
   \<and> Error_loading ''P06_coded.json'' AttributeError \<in> set (fst (load_claude_json_files example_folder))
   \<and> map extracted_data.file_name (snd (collect_all_metrics (Some example_folder)))
       = [''P01_coded.json'', ''P03_coded.json'']
   \<and> Error_parse ''P02_coded.json'' \<in> set (fst (collect_all_metrics (Some example_folder)))
   \<and> Error_processing ''P05_coded.json'' AttributeError
       \<in> set (fst (collect_all_metrics (Some example_folder)))
   \<and> Error_processing ''P06_coded.json'' AttributeError
       \<in> set (fst (collect_all_metrics (Some example_folder)))"
proof -
  have ne: "glob_coded example_folder \<noteq> []" by (simp add: glob_example)
  show ?thesis
    using load_isolates_parse_errors [OF ne] ne
    by (simp add: glob_example read_record_def coded_record_def null_quality_record_def
          null_metrics_record_def Let_def or_else_def split_first_def stem_def
          extract_metrics_from_file_def extract_data_def section_or_def join_categories_def
          list_field_def no_repetition_def no_quality_def)
qed

section \<open>Duplicated identifiers\<close>

lemma merge_inner_Cons:
  "merge_inner (m # ms) cs =
     map (join_row m) (filter (\<lambda>c. claude_row.ParticipantID c = ParticipantID m) cs)
     @ merge_inner ms cs"
  by (simp add: merge_inner_def)

lemma count_claude_ids:
  "length (filter (\<lambda>c. claude_row.ParticipantID c = k) cs)
     = count_list (map claude_row.ParticipantID cs) k"
  by (induction cs) auto

lemma merge_inner_count:
  "length (filter (\<lambda>r. ParticipantID r = s) (merge_inner manual_df claude_df))
     = count_list (map ParticipantID manual_df) s
       * count_list (map claude_row.ParticipantID claude_df) s"
proof (induction manual_df)
  case Nil
  then show ?case by (simp add: merge_inner_def)
next
  case (Cons m ms)
  have pid: "ParticipantID (join_row m c) = ParticipantID m" for c
    by (simp add: join_row_def)
  show ?case
  proof (cases "ParticipantID m = s")
    case True
    then show ?thesis
      using Cons by (simp add: merge_inner_Cons filter_map comp_def pid count_claude_ids)
  next
    case False
    then show ?thesis
      using Cons by (simp add: merge_inner_Cons filter_map comp_def pid)
  qed
qed

lemma duplicate_load:
  "load_claude_json_files duplicate_folder =
     ([Found_files 2, Loaded ''P03'', Loaded ''P03'', Successfully_loaded 2],
      Inr [\<lparr>claude_row.ParticipantID = ''P03'', Fluency_Claude = Some 6,
            Flexibility_Claude = Some 3, Elaboration_Claude = Some 1,
            ElabDensity_Claude = Some (1 / 5), Categories_Claude = Some ''character,action''\<rparr>,
           \<lparr>claude_row.ParticipantID = ''P03'', Fluency_Claude = Some 2,
            Flexibility_Claude = Some 3, Elaboration_Claude = Some 1,
            ElabDensity_Claude = Some (1 / 5), Categories_Claude = Some ''character,action''\<rparr>])"
  by (simp add: load_claude_json_files_def glob_coded_def duplicate_folder_def ends_with_def
        Let_def read_record_def section_or_def coded_record_def or_else_def split_first_def stem_def)

theorem duplicates_joined_counterexample:
  "fst (load_claude_json_files duplicate_folder)
     = [Found_files 2, Loaded ''P03'', Loaded ''P03'', Successfully_loaded 2]
   \<and> map claude_row.ParticipantID (projr (snd (load_claude_json_files duplicate_folder)))
     = [''P03'', ''P03'']
   \<and> fst (merge_datasets duplicate_manual (projr (snd (load_claude_json_files duplicate_folder))))
     = [Merged_dataset 2]
   \<and> (\<exists>merged_df.
         snd (merge_datasets duplicate_manual
                (projr (snd (load_claude_json_files duplicate_folder)))) = Inr merged_df
       \<and> map (\<lambda>r. (ParticipantID r, Fluency_Manual r, Fluency_Claude r)) merged_df
           = [(''P03'', Some 4, Some 6), (''P03'', Some 4, Some 2)])"
  by (simp add: duplicate_load merge_datasets_def merge_inner_def Let_def duplicate_manual_def
        manual_of_def join_row_def)

lemma merge_inner_comprehension:
  "merge_inner manual_df claude_df =
     [join_row m c. m \<leftarrow> manual_df, c \<leftarrow> claude_df,
                    claude_row.ParticipantID c = ParticipantID m]"
proof -
  have "map (join_row m) (filter (\<lambda>c. claude_row.ParticipantID c = ParticipantID m) cs)
        = concat (map (\<lambda>c. if claude_row.ParticipantID c = ParticipantID m
                             then [join_row m c] else []) cs)"
    for m and cs :: "claude_row list"
    by (induction cs) simp_all
  then show ?thesis by (simp add: merge_inner_def)
qed

text \<open>
  Claim C5, as amended. A repeated subject identifier is no error in the loaders or in the
  Aligner and is not reported: the manual loader keeps every row of the spreadsheet, the
  automated loader keeps one row for each file that it reads without an exception, and
  \<^verbatim>\<open>merge_datasets\<close>, given an automated table with at least one row, returns the table
  that joins every manual row with every automated row of the same identifier (in the order
  of the manual rows, then of the automated rows), so that an identifier found \<open>j\<close> times
  in the manual table and \<open>k\<close> times in the automated one has \<open>j * k\<close> aligned rows; it
  prints the number of rows and the two one-sided warnings, nothing else.
\<close>

theorem merge_datasets_joins_duplicates:
  "(claude_df \<noteq> [] \<longrightarrow>
      snd (merge_datasets manual_df claude_df) =
        Inr [join_row m c. m \<leftarrow> manual_df, c \<leftarrow> claude_df,
                           claude_row.ParticipantID c = ParticipantID m]
    \<and> length (filter (\<lambda>r. ParticipantID r = s) (projr (snd (merge_datasets manual_df claude_df))))
        = count_list (map ParticipantID manual_df) s
          * count_list (map claude_row.ParticipantID claude_df) s
    \<and> set (fst (merge_datasets manual_df claude_df))
        \<subseteq> {Merged_dataset (length (projr (snd (merge_datasets manual_df claude_df)))),
            Warning_manual_only
              (card (set (map ParticipantID manual_df)
                     - set (map claude_row.ParticipantID claude_df)))
              (set (map ParticipantID manual_df) - set (map claude_row.ParticipantID claude_df)),
            Warning_claude_only
              (card (set (map claude_row.ParticipantID claude_df)
                     - set (map ParticipantID manual_df)))
              (set (map claude_row.ParticipantID claude_df) - set (map ParticipantID manual_df))})
   \<and> snd (load_manual_coding excel) =
       map (\<lambda>r. \<lparr>ParticipantID = excel_row.ParticipantID r, Fluency_Manual = Fluency r,
                  Flexibility_Manual = Flexibility r, Elaboration_Manual = Elaboration r,
                  Elaboration_Density_Manual = ElabDensity r\<rparr>) excel
   \<and> (glob_coded folder \<noteq> [] \<longrightarrow>
        snd (load_claude_json_files folder) =
          Inr (concat (map (\<lambda>f. case read_record f of Inl e \<Rightarrow> [] | Inr row \<Rightarrow> [row])
                           (glob_coded folder))))"
proof -
  have a: "snd (merge_datasets manual_df claude_df) =
             Inr [join_row m c. m \<leftarrow> manual_df, c \<leftarrow> claude_df,
                                claude_row.ParticipantID c = ParticipantID m]"
    if "claude_df \<noteq> []"
    using that by (simp add: merge_datasets_nonempty merge_inner_comprehension)
  have b: "length (filter (\<lambda>r. ParticipantID r = s) (projr (snd (merge_datasets manual_df claude_df))))
        = count_list (map ParticipantID manual_df) s
          * count_list (map claude_row.ParticipantID claude_df) s"
    if "claude_df \<noteq> []"
    using that merge_inner_count [of s manual_df claude_df]
    by (simp add: merge_datasets_nonempty)
  have c: "set (fst (merge_datasets manual_df claude_df))
        \<subseteq> {Merged_dataset (length (projr (snd (merge_datasets manual_df claude_df)))),
            Warning_manual_only
              (card (set (map ParticipantID manual_df)
                     - set (map claude_row.ParticipantID claude_df)))
              (set (map ParticipantID manual_df) - set (map claude_row.ParticipantID claude_df)),
            Warning_claude_only
              (card (set (map claude_row.ParticipantID claude_df)
                     - set (map ParticipantID manual_df)))
              (set (map claude_row.ParticipantID claude_df) - set (map ParticipantID manual_df))}"
    if "claude_df \<noteq> []"
    using that by (auto simp: merge_datasets_nonempty)
  have d: "snd (load_manual_coding excel) =
       map (\<lambda>r. \<lparr>ParticipantID = excel_row.ParticipantID r, Fluency_Manual = Fluency r,
                  Flexibility_Manual = Flexibility r, Elaboration_Manual = Elaboration r,
                  Elaboration_Density_Manual = ElabDensity r\<rparr>) excel"
    by (simp add: load_manual_coding_def Let_def)
  have e: "snd (load_claude_json_files folder) =
          Inr (concat (map (\<lambda>f. case read_record f of Inl e \<Rightarrow> [] | Inr row \<Rightarrow> [row])
                           (glob_coded folder)))"
    if "glob_coded folder \<noteq> []"
    using that by (simp add: load_claude_json_files_def Let_def load_loop_rows)
  from a b c d e show ?thesis by blast
qed

theorem merge_datasets_joins_duplicates_witness:
  "glob_coded duplicate_folder \<noteq> []
   \<and> projr (snd (load_claude_json_files duplicate_folder)) \<noteq> []
   \<and> length (filter (\<lambda>r. ParticipantID r = ''P03'')
               (projr (snd (merge_datasets (duplicate_manual @ duplicate_manual)
                              (projr (snd (load_claude_json_files duplicate_folder))))))) = 4"
proof -
  have ne: "glob_coded duplicate_folder \<noteq> []"
    by (simp add: glob_coded_def duplicate_folder_def ends_with_def)
  have ne2: "projr (snd (load_claude_json_files duplicate_folder)) \<noteq> []"
    by (simp add: duplicate_load)
  have c1: "count_list (map ParticipantID (duplicate_manual @ duplicate_manual)) ''P03'' = 2"
    by (simp add: duplicate_manual_def manual_of_def)
  have c2: "count_list (map claude_row.ParticipantID
                          (projr (snd (load_claude_json_files duplicate_folder)))) ''P03'' = 2"
    by (simp add: duplicate_load)
  have "length (filter (\<lambda>r. ParticipantID r = ''P03'')
               (projr (snd (merge_datasets (duplicate_manual @ duplicate_manual)
                              (projr (snd (load_claude_json_files duplicate_folder)))))))
        = count_list (map ParticipantID (duplicate_manual @ duplicate_manual)) ''P03''
          * count_list (map claude_row.ParticipantID
                          (projr (snd (load_claude_json_files duplicate_folder)))) ''P03''"
    using merge_datasets_joins_duplicates
            [of "projr (snd (load_claude_json_files duplicate_folder))"
                "duplicate_manual @ duplicate_manual" "''P03''" "[]" duplicate_folder] ne2
    by blast
  then show ?thesis
    using ne ne2 by (simp only: c1 c2) simp
qed

section \<open>Properties of the agreement statistics\<close>

lemma dropna_both_present:
  "dropna mc cc df = concat (map (\<lambda>r. both_present (mc r) (cc r)) df)"
  by (induction df)
     (auto simp: dropna_def List.map_filter_simps both_present_def split: option.splits)

lemma valid_data_complete_cases:
  "m \<in> set metrics \<Longrightarrow> valid_data m df = complete_cases m df"
  by (auto simp: metrics_def valid_data_def complete_cases_def metric_columns_metrics
        dropna_both_present)

lemma metric_columns_valid_data:
  "m \<in> set metrics \<Longrightarrow>
     \<exists>mc cc. metric_columns m = Inr (mc, cc) \<and> dropna mc cc df = valid_data m df"
  by (auto simp: metrics_def valid_data_def metric_columns_metrics)

lemma map2_fst_snd: "map2 f (map fst vd) (map snd vd) = map (\<lambda>(a, b). f a b) vd"
  by (induction vd) auto

lemma pearsonr_Inr:
  "2 \<le> length x \<Longrightarrow> length x = length y \<Longrightarrow> \<exists>c p. pearsonr x y = Inr (c, p)"
  by (simp add: pearsonr_def Let_def)

lemma pearsonr_short: "length x < 2 \<Longrightarrow> pearsonr x y = Inl ValueError"
  by (simp add: pearsonr_def Let_def)

lemma metric_statistics_one: "length vd = 1 \<Longrightarrow> metric_statistics vd = Inl ValueError"
  by (simp add: metric_statistics_def Let_def pearsonr_short)

lemma metric_statistics_Inr:
  assumes "2 \<le> length vd"
  shows "\<exists>c p. pearsonr (map fst vd) (map snd vd) = Inr (c, p)
         \<and> metric_statistics vd =
             Inr \<lparr>correlation = c, p_value = p,
                  mae = sum_list (map (\<lambda>(a, b). \<bar>a - b\<bar>) vd) / real (length vd),
                  mean_difference = Some (sum_list (map (\<lambda>(a, b). a - b) vd) / real (length vd)),
                  std_difference = series_std (map (\<lambda>(a, b). a - b) vd),
                  n_valid = length vd, icc = None\<rparr>"
proof -
  obtain c p where cp: "pearsonr (map fst vd) (map snd vd) = Inr (c, p)"
    using pearsonr_Inr [of "map fst vd" "map snd vd"] assms by auto
  have ne: "vd \<noteq> []" using assms by auto
  show ?thesis
    using cp ne
    by (simp add: metric_statistics_def Let_def mean_absolute_error_def series_mean_def
          map2_fst_snd)
qed

lemma agreement_loop_ok:
  assumes "set ms \<subseteq> set metrics" and "\<forall>m\<in>set ms. length (valid_data m df) \<noteq> 1"
  shows "\<exists>res'. snd (agreement_loop df ms res) = Inr res'
     \<and> (\<forall>k. map_of res' k =
            (if k \<in> set ms \<and> valid_data k df \<noteq> []
             then Some (projr (metric_statistics (valid_data k df))) else map_of res k))
     \<and> (\<forall>k\<in>set ms. valid_data k df = [] \<longrightarrow>
            No_valid_data k \<in> set (fst (agreement_loop df ms res)))
     \<and> (\<forall>k\<in>set ms. valid_data k df \<noteq> [] \<longrightarrow>
            Agreement k (agreement_tier
                           (correlation (projr (metric_statistics (valid_data k df)))))
              \<in> set (fst (agreement_loop df ms res)))"
  using assms
proof (induction ms arbitrary: res)
  case Nil
  then show ?case by simp
next
  case (Cons m ms)
  from Cons.prems obtain mc cc where
    cols: "metric_columns m = Inr (mc, cc)" and vd: "dropna mc cc df = valid_data m df"
    using metric_columns_valid_data [of m df] by auto
  have sub: "set ms \<subseteq> set metrics" and len: "\<forall>m\<in>set ms. length (valid_data m df) \<noteq> 1"
    using Cons.prems by auto
  show ?case
  proof (cases "valid_data m df = []")
    case True
    from Cons.IH [OF sub len, of res] obtain res' where
      r: "snd (agreement_loop df ms res) = Inr res'"
      and k: "\<forall>k. map_of res' k =
            (if k \<in> set ms \<and> valid_data k df \<noteq> []
             then Some (projr (metric_statistics (valid_data k df))) else map_of res k)"
      and n: "\<forall>k\<in>set ms. valid_data k df = [] \<longrightarrow>
            No_valid_data k \<in> set (fst (agreement_loop df ms res))"
      and a: "\<forall>k\<in>set ms. valid_data k df \<noteq> [] \<longrightarrow>
            Agreement k (agreement_tier
                           (correlation (projr (metric_statistics (valid_data k df)))))
              \<in> set (fst (agreement_loop df ms res))"
      by blast
    show ?thesis
      using True r k n a by (auto simp: cols vd)
  next
    case False
    then have "2 \<le> length (valid_data m df)"
      using Cons.prems(2) by (cases "valid_data m df") (auto simp: Suc_le_eq)
    then obtain e where e: "metric_statistics (valid_data m df) = Inr e"
      using metric_statistics_Inr [of "valid_data m df"] by auto
    from Cons.IH [OF sub len, of "AList.update m e res"] obtain res' where
      r: "snd (agreement_loop df ms (AList.update m e res)) = Inr res'"
      and k: "\<forall>k. map_of res' k =
            (if k \<in> set ms \<and> valid_data k df \<noteq> []
             then Some (projr (metric_statistics (valid_data k df)))
             else map_of (AList.update m e res) k)"
      and n: "\<forall>k\<in>set ms. valid_data k df = [] \<longrightarrow>
            No_valid_data k \<in> set (fst (agreement_loop df ms (AList.update m e res)))"
      and a: "\<forall>k\<in>set ms. valid_data k df \<noteq> [] \<longrightarrow>
            Agreement k (agreement_tier
                           (correlation (projr (metric_statistics (valid_data k df)))))
              \<in> set (fst (agreement_loop df ms (AList.update m e res)))"
      by blast
    show ?thesis
      using False r k n a e by (auto simp: cols vd update_conv')
  qed
qed

lemma icc_loop_preserves:
  "map_option (\<lambda>e. e\<lparr>icc := None\<rparr>) (map_of (snd (icc_loop pg df ms res)) k)
   = map_option (\<lambda>e. e\<lparr>icc := None\<rparr>) (map_of res k)"
proof (induction ms arbitrary: res)
  case Nil
  then show ?case by simp
next
  case (Cons m ms)
  show ?case
  proof (cases "calculate_icc pg df m")
    case (Inl e)
    then show ?thesis using Cons.IH [of res] by simp
  next
    case (Inr v)
    show ?thesis
    proof (cases "map_of res m")
      case None
      then show ?thesis using Inr Cons.IH [of res] by simp
    next
      case (Some entry)
      then show ?thesis
        using Inr Cons.IH [of "AList.update m (entry\<lparr>icc := Some v\<rparr>) res"]
        by (simp add: update_conv')
    qed
  qed
qed

lemma calculate_agreement_statistics_ok:
  assumes "\<forall>m\<in>set metrics. length (valid_data m df) \<noteq> 1"
  shows "\<exists>results. snd (calculate_agreement_statistics pingouin df) = Inr results
     \<and> (\<forall>k. map_option (\<lambda>e. e\<lparr>icc := None\<rparr>) (map_of results k) =
            (if k \<in> set metrics \<and> valid_data k df \<noteq> []
             then Some (projr (metric_statistics (valid_data k df))) else None))
     \<and> (\<forall>k\<in>set metrics. valid_data k df = [] \<longrightarrow>
            No_valid_data k \<in> set (fst (calculate_agreement_statistics pingouin df)))
     \<and> (\<forall>k\<in>set metrics. valid_data k df \<noteq> [] \<longrightarrow>
            Agreement k (agreement_tier
                           (correlation (projr (metric_statistics (valid_data k df)))))
              \<in> set (fst (calculate_agreement_statistics pingouin df)))"
proof -
  from agreement_loop_ok [OF subset_refl assms, of "[]"] obtain res' where
    r: "snd (agreement_loop df metrics []) = Inr res'"
    and k: "\<forall>k. map_of res' k =
          (if k \<in> set metrics \<and> valid_data k df \<noteq> []
           then Some (projr (metric_statistics (valid_data k df))) else None)"
    and n: "\<forall>k\<in>set metrics. valid_data k df = [] \<longrightarrow>
          No_valid_data k \<in> set (fst (agreement_loop df metrics []))"
    and a: "\<forall>k\<in>set metrics. valid_data k df \<noteq> [] \<longrightarrow>
          Agreement k (agreement_tier
                         (correlation (projr (metric_statistics (valid_data k df)))))
            \<in> set (fst (agreement_loop df metrics []))"
    by auto
  have icc0: "(projr (metric_statistics (valid_data k df)))\<lparr>icc := None\<rparr>
              = projr (metric_statistics (valid_data k df))"
    if "valid_data k df \<noteq> []" "k \<in> set metrics" for k
  proof -
    have "2 \<le> length (valid_data k df)"
      using that assms by (cases "valid_data k df") (auto simp: Suc_le_eq)
    then show ?thesis
      using metric_statistics_Inr [of "valid_data k df"] by auto
  qed
  show ?thesis
  proof (cases pingouin)
    case None
    then show ?thesis
      using r k n a icc0 by (auto simp: calculate_agreement_statistics_def)
  next
    case (Some pg)
    then show ?thesis
      using r k n a icc0 icc_loop_preserves [of pg df metrics res']
      by (auto simp: calculate_agreement_statistics_def)
  qed
qed

lemma drop_icc_fields:
  assumes "e\<lparr>icc := None\<rparr> = E"
  shows "correlation e = correlation E" "p_value e = p_value E" "mae e = mae E"
    "mean_difference e = mean_difference E" "std_difference e = std_difference E"
    "n_valid e = n_valid E"
  using assms by auto




section \<open>Properties of the overall conclusion\<close>



lemma those_None: "None \<in> set xs \<Longrightarrow> those xs = None"
  by (induction xs) (auto split: option.splits)

lemma double_literals:
  "\<bar>double_0_85 - 85 / 100\<bar> \<le> 1 / 2 ^ 54" "\<bar>double_0_70 - 70 / 100\<bar> \<le> 1 / 2 ^ 53"
  "\<bar>double_0_90 - 90 / 100\<bar> \<le> 1 / 2 ^ 54" "\<bar>double_0_80 - 80 / 100\<bar> \<le> 1 / 2 ^ 53"
  by (simp_all add: double_0_85_def double_0_70_def double_0_90_def double_0_80_def)



section \<open>Fewer than two valid pairs\<close>

lemma single_pair_load:
  "load_claude_json_files single_pair_folder =
     ([Found_files 2, Loaded ''P03'', Loaded ''P04'', Successfully_loaded 2],
      Inr [\<lparr>claude_row.ParticipantID = ''P03'', Fluency_Claude = Some 6,
            Flexibility_Claude = Some 3, Elaboration_Claude = Some 1,
            ElabDensity_Claude = Some (1 / 5), Categories_Claude = Some ''character,action''\<rparr>,
           \<lparr>claude_row.ParticipantID = ''P04'', Fluency_Claude = Some 5,
            Flexibility_Claude = Some 3, Elaboration_Claude = Some 1,
            ElabDensity_Claude = Some (1 / 5), Categories_Claude = Some ''character,action''\<rparr>])"
  by (simp add: load_claude_json_files_def glob_coded_def single_pair_folder_def ends_with_def
        Let_def read_record_def section_or_def coded_record_def or_else_def split_first_def stem_def)

lemma single_pair_merge:
  "merge_datasets (snd (load_manual_coding single_pair_excel))
     (projr (snd (load_claude_json_files single_pair_folder))) =
     ([Merged_dataset 2],
      Inr
      [\<lparr>ParticipantID = ''P03'', Fluency_Manual = Some 4, Flexibility_Manual = Some 3,
        Elaboration_Manual = Some 1, Elaboration_Density_Manual = None,
        Fluency_Claude = Some 6, Flexibility_Claude = Some 3, Elaboration_Claude = Some 1,
        ElabDensity_Claude = Some (1 / 5), Categories_Claude = Some ''character,action'',
        extra_columns = []\<rparr>,
       \<lparr>ParticipantID = ''P04'', Fluency_Manual = None, Flexibility_Manual = Some 2,
        Elaboration_Manual = Some 2, Elaboration_Density_Manual = None,
        Fluency_Claude = Some 5, Flexibility_Claude = Some 3, Elaboration_Claude = Some 1,
        ElabDensity_Claude = Some (1 / 5), Categories_Claude = Some ''character,action'',
        extra_columns = []\<rparr>])"
  by (simp add: single_pair_load merge_datasets_def merge_inner_def Let_def
        load_manual_coding_def single_pair_excel_def join_row_def)

lemma single_pair_merged_eq:
  "single_pair_merged =
      [\<lparr>ParticipantID = ''P03'', Fluency_Manual = Some 4, Flexibility_Manual = Some 3,
        Elaboration_Manual = Some 1, Elaboration_Density_Manual = None,
        Fluency_Claude = Some 6, Flexibility_Claude = Some 3, Elaboration_Claude = Some 1,
        ElabDensity_Claude = Some (1 / 5), Categories_Claude = Some ''character,action'',
        extra_columns = []\<rparr>,
       \<lparr>ParticipantID = ''P04'', Fluency_Manual = None, Flexibility_Manual = Some 2,
        Elaboration_Manual = Some 2, Elaboration_Density_Manual = None,
        Fluency_Claude = Some 5, Flexibility_Claude = Some 3, Elaboration_Claude = Some 1,
        ElabDensity_Claude = Some (1 / 5), Categories_Claude = Some ''character,action'',
        extra_columns = []\<rparr>]"
  by (simp add: single_pair_merged_def single_pair_merge)

lemma single_pair_cases:
  "complete_cases ''Fluency'' single_pair_merged = [(4, 6)]"
  "complete_cases ''Flexibility'' single_pair_merged = [(3, 3), (2, 3)]"
  "complete_cases ''Elaboration'' single_pair_merged = [(1, 1), (2, 1)]"
  by (simp_all add: single_pair_merged_eq complete_cases_def both_present_def)

lemma single_pair_statistics:
  "calculate_agreement_statistics pingouin single_pair_merged = ([], Inl ValueError)"
  by (simp add: calculate_agreement_statistics_def metrics_def metric_columns_metrics
        single_pair_merged_eq dropna_def List.map_filter_simps metric_statistics_one)

text \<open>
  Claim C1, at the run above. Fluency has exactly one valid pair and Flexibility two; the
  correlation of Fluency raises ValueError, which ends \<^verbatim>\<open>calculate_agreement_statistics\<close>
  without results for any metric, and \<^verbatim>\<open>main\<close> prints the error and writes no report
  (whatever NumPy's mean computes: it is not reached).
\<close>

theorem single_valid_pair_aborts:
  "complete_cases ''Fluency'' single_pair_merged = [(4, 6)]
   \<and> complete_cases ''Flexibility'' single_pair_merged = [(3, 3), (2, 3)]
   \<and> calculate_agreement_statistics None single_pair_merged = ([], Inl ValueError)
   \<and> (\<forall>fmean. main fmean None single_pair_folder (Inr single_pair_excel) =
       ([Found_files 2, Loaded ''P03'', Loaded ''P04'', Successfully_loaded 2, Loaded_manual 2,
         Merged_dataset 2, Error_during_analysis ValueError], None))"
proof -
  have m: "main fmean None single_pair_folder (Inr single_pair_excel) =
       ([Found_files 2, Loaded ''P03'', Loaded ''P04'', Successfully_loaded 2, Loaded_manual 2,
         Merged_dataset 2, Error_during_analysis ValueError], None)" for fmean
    using single_pair_statistics [of None, unfolded single_pair_merged_eq]
    by (simp add: main_def single_pair_load Let_def load_manual_coding_def single_pair_excel_def
          merge_datasets_def merge_inner_def join_row_def)
  show ?thesis
    using m single_pair_statistics [of None] by (simp add: single_pair_cases)
qed


section \<open>Properties of a sample without variance\<close>

lemma pearsonr_zero_variance:
  assumes "2 \<le> length x" and "length x = length y"
    and "zero_variance x \<or> zero_variance y"
  shows "pearsonr x y = Inr (None, P_nan)"
  using assms by (auto simp: pearsonr_def Let_def zero_variance_def)

lemma overall_assessment_nan:
  assumes "None \<in> set (map (\<lambda>(m, stats). correlation stats) results)"
  shows "overall_assessment fmean results = Poor_agreement"
proof -
  have "those (map (\<lambda>(m, stats). correlation stats) results) = None"
    using assms by (rule those_None)
  then show ?thesis
    by (simp add: overall_assessment_def Let_def np_mean_def cell_ge_def)
qed

lemma constant_manual_cases:
  "complete_cases ''Fluency'' constant_manual = [(5, 5), (5, 3)]"
  "complete_cases ''Flexibility'' constant_manual = []"
  "complete_cases ''Elaboration'' constant_manual = []"
  by (simp_all add: complete_cases_def constant_manual_def both_present_def join_row_def
        manual_of_def claude_of_def)

lemma constant_manual_statistics:
  "metric_statistics [(5, 5), (5, 3)] =
     Inr \<lparr>correlation = None, p_value = P_nan, mae = 1, mean_difference = Some 1,
          std_difference = Some (sqrt 2), n_valid = 2, icc = None\<rparr>"
  by (simp add: metric_statistics_def Let_def pearsonr_def mean_absolute_error_def
        series_mean_def series_std_def power2_eq_square)

lemma constant_manual_run:
  "calculate_agreement_statistics None constant_manual =
     ([Statistics ''Fluency''
         \<lparr>correlation = None, p_value = P_nan, mae = 1, mean_difference = Some 1,
          std_difference = Some (sqrt 2), n_valid = 2, icc = None\<rparr>,
       Agreement ''Fluency'' Poor, No_valid_data ''Flexibility'', No_valid_data ''Elaboration''],
      Inr [(''Fluency'',
            \<lparr>correlation = None, p_value = P_nan, mae = 1, mean_difference = Some 1,
             std_difference = Some (sqrt 2), n_valid = 2, icc = None\<rparr>)])"
  by (simp add: calculate_agreement_statistics_def metrics_def metric_columns_metrics
        constant_manual_def join_row_def manual_of_def claude_of_def
        dropna_def List.map_filter_simps
        constant_manual_statistics agreement_tier_def cell_ge_def)

text \<open>
  The manual Fluency values of the two subjects above are equal. The run stores NaN as the
  correlation of Fluency, prints the tier of a poor agreement for it, and the conclusion of
  the report is poor agreement: the NaN goes through the results, the tier and the report.
\<close>

theorem zero_variance_nan_counterexample:
  "zero_variance (map fst (complete_cases ''Fluency'' constant_manual))
   \<and> map (\<lambda>(m, stats). (m, correlation stats, p_value stats))
         (projr (snd (calculate_agreement_statistics None constant_manual)))
       = [(''Fluency'', None, P_nan)]
   \<and> Agreement ''Fluency'' Poor \<in> set (fst (calculate_agreement_statistics None constant_manual))
   \<and> (\<forall>fmean.
         overall (snd (generate_summary_report fmean constant_manual
                         (projr (snd (calculate_agreement_statistics None constant_manual)))))
         = Poor_agreement)"
  by (simp add: constant_manual_run constant_manual_cases zero_variance_def
        generate_summary_report_def overall_assessment_def Let_def np_mean_def cell_ge_def)

text \<open>
  Claim C2, as amended. Let no metric have exactly one valid pair. For a metric whose valid
  pairs have zero variance in the manual or in the automated values,
  \<^verbatim>\<open>calculate_agreement_statistics\<close> raises nothing and stores NaN as the correlation and as
  the p-value of that metric; the tier it prints for the metric is poor agreement, and the
  conclusion of a report written from these results is poor agreement, whatever NumPy's
  mean computes from numbers. The NaN is not replaced, and nothing marks the correlation as
  undefined.
\<close>

theorem zero_variance_correlation_nan:
  assumes "m \<in> set metrics"
    and "\<forall>k\<in>set metrics. length (complete_cases k df) \<noteq> 1"
    and "complete_cases m df \<noteq> []"
    and "zero_variance (map fst (complete_cases m df))
         \<or> zero_variance (map snd (complete_cases m df))"
  shows "\<exists>results e. snd (calculate_agreement_statistics pingouin df) = Inr results
     \<and> map_of results m = Some e
     \<and> correlation e = None \<and> p_value e = P_nan
     \<and> Agreement m Poor \<in> set (fst (calculate_agreement_statistics pingouin df))
     \<and> overall (snd (generate_summary_report fmean df results)) = Poor_agreement"
proof -
  have len: "\<forall>k\<in>set metrics. length (valid_data k df) \<noteq> 1"
    using assms(2) by (simp add: valid_data_complete_cases)
  have vd: "valid_data m df = complete_cases m df"
    using assms(1) by (rule valid_data_complete_cases)
  have two: "2 \<le> length (complete_cases m df)"
    using assms(1,2,3) by (cases "complete_cases m df") (auto simp: Suc_le_eq)
  have pr: "pearsonr (map fst (complete_cases m df)) (map snd (complete_cases m df))
            = Inr (None, P_nan)"
    using two assms(4) by (intro pearsonr_zero_variance) auto
  from metric_statistics_Inr [OF two] pr obtain E where
    ms: "metric_statistics (complete_cases m df) = Inr E"
    and E: "correlation E = None" "p_value E = P_nan"
    by auto
  from calculate_agreement_statistics_ok [OF len, of pingouin] obtain results where
    r: "snd (calculate_agreement_statistics pingouin df) = Inr results"
    and k: "\<forall>k. map_option (\<lambda>e. e\<lparr>icc := None\<rparr>) (map_of results k) =
          (if k \<in> set metrics \<and> valid_data k df \<noteq> []
           then Some (projr (metric_statistics (valid_data k df))) else None)"
    and a: "\<forall>k\<in>set metrics. valid_data k df \<noteq> [] \<longrightarrow>
          Agreement k (agreement_tier
                         (correlation (projr (metric_statistics (valid_data k df)))))
            \<in> set (fst (calculate_agreement_statistics pingouin df))"
    by blast
  from k [rule_format, of m] assms(1,3) ms obtain e where
    e: "map_of results m = Some e" and d: "e\<lparr>icc := None\<rparr> = E"
    by (auto simp: vd)
  have ce: "correlation e = None" "p_value e = P_nan"
    using drop_icc_fields(1,2) [OF d] E by simp_all
  have tier: "Agreement m Poor \<in> set (fst (calculate_agreement_statistics pingouin df))"
    using a [rule_format, OF assms(1)] assms(3) ms E
    by (simp add: vd agreement_tier_def cell_ge_def)
  have "(m, e) \<in> set results"
    using e by (rule map_of_SomeD)
  then have "None \<in> set (map (\<lambda>(m, stats). correlation stats) results)"
    using ce(1) by force
  then have "overall_assessment fmean results = Poor_agreement"
    by (rule overall_assessment_nan)
  then show ?thesis
    using r e ce tier by (simp add: generate_summary_report_def)
qed

theorem zero_variance_correlation_nan_witness:
  "''Fluency'' \<in> set metrics
   \<and> length (complete_cases ''Fluency'' constant_manual) = 2
   \<and> length (complete_cases ''Flexibility'' constant_manual) = 0
   \<and> length (complete_cases ''Elaboration'' constant_manual) = 0
   \<and> zero_variance (map fst (complete_cases ''Fluency'' constant_manual))
   \<and> correlation (the (map_of (projr (snd (calculate_agreement_statistics None constant_manual)))
                             ''Fluency'')) = None
   \<and> Agreement ''Fluency'' Poor \<in> set (fst (calculate_agreement_statistics None constant_manual))"
proof -
  have m: "''Fluency'' \<in> set metrics" by (simp add: metrics_def)
  have h: "\<forall>k\<in>set metrics. length (complete_cases k constant_manual) \<noteq> 1"
    by (simp add: metrics_def constant_manual_cases)
  have ne: "complete_cases ''Fluency'' constant_manual \<noteq> []"
    by (simp add: constant_manual_cases)
  have z: "zero_variance (map fst (complete_cases ''Fluency'' constant_manual))
           \<or> zero_variance (map snd (complete_cases ''Fluency'' constant_manual))"
    by (simp add: constant_manual_cases zero_variance_def)
  from zero_variance_correlation_nan [OF m h ne z, of None] obtain results e where
    "snd (calculate_agreement_statistics None constant_manual) = Inr results"
    "map_of results ''Fluency'' = Some e" "correlation e = None"
    "Agreement ''Fluency'' Poor \<in> set (fst (calculate_agreement_statistics None constant_manual))"
    by blast
  then show ?thesis
    using m by (simp add: constant_manual_cases zero_variance_def)
qed

section \<open>The analysed dimensions\<close>

lemma agreement_loop_keys:
  "snd (agreement_loop df ms res) = Inr res' \<Longrightarrow> fst ` set res' \<subseteq> fst ` set res \<union> set ms"
proof (induction ms arbitrary: res)
  case Nil
  then show ?case by simp
next
  case (Cons m ms)
  show ?case
  proof (cases "metric_columns m")
    case (Inl e)
    then show ?thesis using Cons.prems by simp
  next
    case (Inr cols)
    obtain mc cc where cols: "cols = (mc, cc)" by (cases cols)
    show ?thesis
    proof (cases "dropna mc cc df = []")
      case True
      then have "snd (agreement_loop df ms res) = Inr res'"
        using Cons.prems Inr cols by simp
      from Cons.IH [OF this] show ?thesis by auto
    next
      case False
      show ?thesis
      proof (cases "metric_statistics (dropna mc cc df)")
        case (Inl e)
        then show ?thesis using Cons.prems Inr cols False by simp
      next
        case entry: (Inr entry)
        then have "snd (agreement_loop df ms (AList.update m entry res)) = Inr res'"
          using Cons.prems Inr cols False by simp
        from Cons.IH [OF this] have
          "fst ` set res' \<subseteq> set (map fst (AList.update m entry res)) \<union> set ms"
          by simp
        then show ?thesis
          by (auto simp: update_keys split: if_splits)
      qed
    qed
  qed
qed

lemma icc_loop_keys: "map fst (snd (icc_loop pg df ms res)) = map fst res"
proof (induction ms arbitrary: res)
  case Nil
  then show ?case by simp
next
  case (Cons m ms)
  show ?case
  proof (cases "calculate_icc pg df m")
    case (Inl e)
    then show ?thesis using Cons.IH [of res] by simp
  next
    case (Inr v)
    show ?thesis
    proof (cases "map_of res m")
      case None
      then show ?thesis using Inr Cons.IH [of res] by simp
    next
      case (Some entry)
      then have "m \<in> fst ` set res"
        by (metis map_of_eq_None_iff option.distinct(1))
      then show ?thesis
        using Inr Some Cons.IH [of "AList.update m (entry\<lparr>icc := Some v\<rparr>) res"]
        by (simp add: update_keys)
    qed
  qed
qed

lemma spec_flags_keys:
  "fst ` set (spec_flags T df) \<subseteq> {''Fluency'', ''Flexibility'', ''Elaboration''}"
  by (auto simp: spec_flags_def spec_flag_def split: option.splits if_splits)

text \<open>
  Claim C10. The elaboration-density values of both sources are loaded (from every record
  file that is read without an exception: the value of the document, or NaN when the
  document has no creativity metrics) and carried into the merged table, in the columns
  \<open>Elaboration_Density_Manual\<close> and \<open>ElabDensity_Claude\<close>.
  In every run the results of \<^verbatim>\<open>calculate_agreement_statistics\<close> have no key other than
  Fluency, Flexibility and Elaboration, and every discrepancy flag is for one of these
  three: elaboration density, under any name, has no statistics and no flag.
\<close>

theorem only_three_dimensions_analysed:
  "fst ` set (case snd (calculate_agreement_statistics pingouin df) of
               Inl e \<Rightarrow> [] | Inr results \<Rightarrow> results)
     \<subseteq> {''Fluency'', ''Flexibility'', ''Elaboration''}
   \<and> fst ` set (discrepancy_flags df threshold_arg)
     \<subseteq> {''Fluency'', ''Flexibility'', ''Elaboration''}
   \<and> set metrics = {''Fluency'', ''Flexibility'', ''Elaboration''}
   \<and> map Elaboration_Density_Manual (snd (load_manual_coding excel)) = map ElabDensity excel
   \<and> map claude_row.ElabDensity_Claude
       (case read_record \<lparr>json_file.file_name = name, content = Inr data\<rparr> of
          Inl e \<Rightarrow> [] | Inr row \<Rightarrow> [row])
     = (case creativity_metrics data of
          Absent \<Rightarrow> [None]
        | Null \<Rightarrow> []
        | Present values \<Rightarrow> [metrics_json.elaboration_density values])
   \<and> Elaboration_Density_Manual (join_row manual_r claude_r)
     = Elaboration_Density_Manual manual_r
   \<and> ElabDensity_Claude (join_row manual_r claude_r) = claude_row.ElabDensity_Claude claude_r"
proof -
  have keys: "fst ` set (case snd (calculate_agreement_statistics pingouin df) of
               Inl e \<Rightarrow> [] | Inr results \<Rightarrow> results)
     \<subseteq> {''Fluency'', ''Flexibility'', ''Elaboration''}"
  proof (cases "snd (agreement_loop df metrics [])")
    case (Inl e)
    then show ?thesis by (simp add: calculate_agreement_statistics_def)
  next
    case (Inr res)
    from agreement_loop_keys [OF this] have r: "fst ` set res \<subseteq> set metrics" by simp
    show ?thesis
    proof (cases pingouin)
      case None
      then show ?thesis
        using Inr r by (simp add: calculate_agreement_statistics_def metrics_def)
    next
      case (Some pg)
      have "fst ` set (snd (icc_loop pg df metrics res)) = fst ` set res"
        using icc_loop_keys [of pg df metrics res] by (metis set_map)
      then show ?thesis
        using Some Inr r by (simp add: calculate_agreement_statistics_def metrics_def)
    qed
  qed
  show ?thesis
    using keys spec_flags_keys
    by (simp add: discrepancy_flags_eq metrics_def load_manual_coding_def comp_def
          read_record_def section_or_def no_metrics_def Let_def join_row_def insert_commute
          split: field.splits)
qed

end
